theory Spec2Isabelle
  imports Complex_Main "HOL-Library.AList"
begin

section \<open>Python values\<close>

text \<open>
  The module \<^verbatim>\<open>module/config/db.py\<close> works on untyped data read from YAML files:
  scalars, lists and mappings. A value is one of the following. Mappings keep their
  insertion order (an association list), as Python dictionaries do. Keys are compared
  structurally; Python's cross-type numeric equality (\<^verbatim>\<open>1 == True == 1.0\<close>) is not modelled.
  A float is the rational number it holds, a timestamp a naive \<^verbatim>\<open>datetime\<close>.
\<close>

datatype pydatetime = Datetime int int int int int int int

datatype pyval =
    PNone
  | PBool bool
  | PInt int
  | PFloat rat
  | PStr string
  | PDatetime pydatetime
  | PList "pyval list"
  | PTuple "pyval list"
  | PDict "(pyval \<times> pyval) list"

type_synonym pydict = "(pyval \<times> pyval) list"

datatype error = KeyError | TypeError | AttributeError | AssertionError

text \<open>Truth value testing (\<^verbatim>\<open>if v:\<close>).\<close>

fun truthy :: "pyval \<Rightarrow> bool" where
  "truthy PNone = False"
| "truthy (PBool b) = b"
| "truthy (PInt i) = (i \<noteq> 0)"
| "truthy (PFloat f) = (f \<noteq> 0)"
| "truthy (PStr s) = (s \<noteq> [])"
| "truthy (PDatetime d) = True"
| "truthy (PList xs) = (xs \<noteq> [])"
| "truthy (PTuple xs) = (xs \<noteq> [])"
| "truthy (PDict m) = (m \<noteq> [])"

text \<open>Lists and dictionaries cannot be hashed; a tuple can when its items can.\<close>

fun hashable :: "pyval \<Rightarrow> bool" where
  "hashable (PList xs) = False"
| "hashable (PDict m) = False"
| "hashable (PTuple xs) = list_all hashable xs"
| "hashable v = True"

text \<open>Sequencing of computations that may raise.\<close>

definition ebind :: "error + 'a \<Rightarrow> ('a \<Rightarrow> error + 'b) \<Rightarrow> error + 'b" where
  "ebind m f = (case m of Inl e \<Rightarrow> Inl e | Inr x \<Rightarrow> f x)"

fun emap :: "('a \<Rightarrow> error + 'b) \<Rightarrow> 'a list \<Rightarrow> error + 'b list" where
  "emap f [] = Inr []"
| "emap f (x # xs) = ebind (f x) (\<lambda>y. ebind (emap f xs) (\<lambda>ys. Inr (y # ys)))"

subsection \<open>Dictionaries\<close>

text \<open>\<^verbatim>\<open>d.get(k)\<close> for a string key, \<^verbatim>\<open>d[k] = v\<close>, \<^verbatim>\<open>d.update(e)\<close>, \<^verbatim>\<open>d.get(k, default)\<close>.\<close>

definition field :: "pydict \<Rightarrow> string \<Rightarrow> pyval option" where
  "field d k = map_of d (PStr k)"

definition dict_set :: "pydict \<Rightarrow> pyval \<Rightarrow> pyval \<Rightarrow> pydict" where
  "dict_set d k v = AList.update k v d"

definition dict_update :: "pydict \<Rightarrow> pydict \<Rightarrow> pydict" where
  "dict_update d e = fold (\<lambda>(k, v) acc. dict_set acc k v) e d"

definition get_or :: "pydict \<Rightarrow> string \<Rightarrow> pyval \<Rightarrow> pyval" where
  "get_or d k dflt = (case field d k of Some v \<Rightarrow> v | None \<Rightarrow> dflt)"

text \<open>\<^verbatim>\<open>data[k]\<close> on any value: a missing key raises KeyError, a receiver that is not a
  mapping raises TypeError (a string key indexes nothing else).\<close>

fun subscript :: "pyval \<Rightarrow> string \<Rightarrow> error + pyval" where
  "subscript (PDict d) k = (case field d k of Some v \<Rightarrow> Inr v | None \<Rightarrow> Inl KeyError)"
| "subscript v k = Inl TypeError"

text \<open>\<^verbatim>\<open>x.items()\<close> and \<^verbatim>\<open>x.keys()\<close>: only a mapping has them.\<close>

fun items :: "pyval \<Rightarrow> error + pydict" where
  "items (PDict d) = Inr d"
| "items v = Inl AttributeError"

text \<open>Substring test on strings.\<close>

fun contains :: "string \<Rightarrow> string \<Rightarrow> bool" where
  "contains sub [] = (sub = [])"
| "contains sub (c # cs) = (take (length sub) (c # cs) = sub \<or> contains sub cs)"

text \<open>\<^verbatim>\<open>value in container\<close>: key membership in a mapping (the value must be hashable),
  item membership in a list or tuple, substring test in a string; other values are
  not containers.\<close>

fun py_in :: "pyval \<Rightarrow> pyval \<Rightarrow> error + bool" where
  "py_in v (PDict d) = (if hashable v then Inr (v \<in> set (map fst d)) else Inl TypeError)"
| "py_in v (PList xs) = Inr (v \<in> set xs)"
| "py_in v (PTuple xs) = Inr (v \<in> set xs)"
| "py_in v (PStr s) = (case v of PStr t \<Rightarrow> Inr (contains t s) | _ \<Rightarrow> Inl TypeError)"
| "py_in v c = Inl TypeError"

subsection \<open>The Python library\<close>

text \<open>
  The built-in conversions the module calls are parameters of the model:
  \<^verbatim>\<open>int(s)\<close>, \<^verbatim>\<open>float(s)\<close> and \<^verbatim>\<open>datetime.fromisoformat(s)\<close> on a string (\<open>None\<close> stands for
  ValueError), and \<^verbatim>\<open>str(v)\<close> on a value that is not a string, as an f-string uses it.
  So is the identifier that \<^verbatim>\<open>random_id()\<close> of \<^verbatim>\<open>module/config/utils.py\<close> returns.
\<close>

record pylib =
  py_int :: "string \<Rightarrow> int option"
  py_float :: "string \<Rightarrow> rat option"
  py_fromisoformat :: "string \<Rightarrow> pydatetime option"
  py_str :: "pyval \<Rightarrow> string"
  random_id :: pyval

definition format_str :: "pylib \<Rightarrow> pyval \<Rightarrow> string" where
  "format_str L v = (case v of PStr s \<Rightarrow> s | _ \<Rightarrow> py_str L v)"

section \<open>Value typing\<close>

text \<open>\<^verbatim>\<open>parse_value(value, data)\<close>, lines 46-79.\<close>

definition parse_str :: "pylib \<Rightarrow> string \<Rightarrow> pyval" where
  "parse_str L s =
     (if s = [] then PNone
      else
        (let date = (case py_fromisoformat L s of Some d \<Rightarrow> PDatetime d | None \<Rightarrow> PStr s)
         in if CHR ''.'' \<in> set s
            then (case py_float L s of Some f \<Rightarrow> PFloat f | None \<Rightarrow> date)
            else (case py_int L s of Some i \<Rightarrow> PInt i | None \<Rightarrow> date)))"

definition parse_value :: "pylib \<Rightarrow> pyval \<Rightarrow> pyval \<Rightarrow> error + pyval" where
  "parse_value L v data =
     ebind (subscript data ''option'') (\<lambda>option.
     ebind (if truthy option then ebind (py_in v option) (\<lambda>b. Inr (\<not> b)) else Inr False)
       (\<lambda>rejected.
          if rejected then subscript data ''value''
          else (case v of PStr s \<Rightarrow> Inr (parse_str L s) | _ \<Rightarrow> Inr v)))"

section \<open>Path addressing\<close>

text \<open>\<^verbatim>\<open>s.split('.')\<close> and \<^verbatim>\<open>'.'.join(ws)\<close>.\<close>

fun split_dot :: "string \<Rightarrow> string list" where
  "split_dot [] = [[]]"
| "split_dot (c # cs) =
     (if c = CHR ''.'' then [] # split_dot cs
      else (case split_dot cs of w # ws \<Rightarrow> (c # w) # ws | [] \<Rightarrow> [[c]]))"

fun join_dot :: "string list \<Rightarrow> string" where
  "join_dot [] = []"
| "join_dot [w] = w"
| "join_dot (w # v # ws) = w @ ''.'' @ join_dot (v # ws)"

text \<open>
  Modelled from the spec: \<^verbatim>\<open>deep_get\<close>, \<^verbatim>\<open>deep_set\<close> and \<^verbatim>\<open>deep_default\<close> of
  \<^verbatim>\<open>module/config/utils.py\<close>, which is not among the sources. The spec (4.1): a path is a
  sequence of keys split on the dot; \<^verbatim>\<open>get\<close> returns the default if any intermediate key is
  absent or the container at that level is not a mapping; \<^verbatim>\<open>set\<close> creates intermediate
  mappings as needed; \<^verbatim>\<open>set_if_absent\<close> sets only a path that is absent; none of them
  raises.
\<close>

fun deep_get_keys :: "pyval \<Rightarrow> string list \<Rightarrow> pyval \<Rightarrow> pyval" where
  "deep_get_keys d [] dflt = d"
| "deep_get_keys d (k # ks) dflt =
     (case d of
        PDict m \<Rightarrow> (case field m k of Some v \<Rightarrow> deep_get_keys v ks dflt | None \<Rightarrow> dflt)
      | _ \<Rightarrow> dflt)"

fun deep_set_keys :: "pyval \<Rightarrow> string list \<Rightarrow> pyval \<Rightarrow> pyval" where
  "deep_set_keys d [] v = v"
| "deep_set_keys d (k # ks) v =
     (let m = (case d of PDict m \<Rightarrow> m | _ \<Rightarrow> [])
      in PDict (dict_set m (PStr k) (deep_set_keys (get_or m k PNone) ks v)))"

fun deep_has :: "pyval \<Rightarrow> string list \<Rightarrow> bool" where
  "deep_has d [] = True"
| "deep_has d (k # ks) =
     (case d of
        PDict m \<Rightarrow> (case field m k of Some v \<Rightarrow> deep_has v ks | None \<Rightarrow> False)
      | _ \<Rightarrow> False)"

definition deep_get :: "pyval \<Rightarrow> string \<Rightarrow> pyval \<Rightarrow> pyval" where
  "deep_get d keys dflt = deep_get_keys d (split_dot keys) dflt"

definition deep_set :: "pyval \<Rightarrow> string \<Rightarrow> pyval \<Rightarrow> pyval" where
  "deep_set d keys v = deep_set_keys d (split_dot keys) v"

definition deep_default :: "pyval \<Rightarrow> string \<Rightarrow> pyval \<Rightarrow> pyval" where
  "deep_default d keys v = (if deep_has d (split_dot keys) then d else deep_set d keys v)"

section \<open>The schema store\<close>

text \<open>
  The store is a TinyDB table: a list of rows (documents) in insertion order.
  A query is a conjunction of tests \<^verbatim>\<open>where(field) == value\<close>; a row without the field does
  not match. \<^verbatim>\<open>search\<close> returns the matching rows, and calling it with no query
  raises (\<^verbatim>\<open>None\<close> is not callable); \<^verbatim>\<open>update(fields, query)\<close> merges the fields into every
  matching row.
\<close>

type_synonym query = "(string \<times> pyval) list"

definition matches :: "query \<Rightarrow> pydict \<Rightarrow> bool" where
  "matches q row = list_all (\<lambda>(a, v). field row a = Some v) q"

definition search :: "pydict list \<Rightarrow> query option \<Rightarrow> error + pydict list" where
  "search db q = (case q of None \<Rightarrow> Inl TypeError | Some c \<Rightarrow> Inr (filter (matches c) db))"

definition db_update :: "pydict list \<Rightarrow> pydict \<Rightarrow> query option \<Rightarrow> error + pydict list" where
  "db_update db flds q =
     (case q of
        None \<Rightarrow> Inl TypeError
      | Some c \<Rightarrow> Inr (map (\<lambda>row. if matches c row then dict_update row flds else row) db))"

text \<open>\<^verbatim>\<open>request_to_query(request)\<close>, lines 82-107.\<close>

definition request_to_query :: "pydict \<Rightarrow> query option" where
  "request_to_query request =
     (let conds = filter (\<lambda>(a, v). truthy v)
            (map (\<lambda>a. (a, get_or request a PNone)) [''func'', ''group'', ''arg'', ''lang''])
      in if conds = [] then None else Some conds)"

text \<open>\<^verbatim>\<open>data_to_path(data)\<close>, lines 110-118: joining raises unless all three entries
  are strings.\<close>

fun the_str :: "pyval \<Rightarrow> error + string" where
  "the_str (PStr s) = Inr s"
| "the_str v = Inl TypeError"

definition data_to_path :: "pydict \<Rightarrow> error + string" where
  "data_to_path data =
     ebind (emap (\<lambda>attr. the_str (get_or data attr (PStr ''''))) [''func'', ''group'', ''arg''])
       (\<lambda>ws. Inr (join_dot ws))"

section \<open>Migration\<close>

text \<open>
  The schema definition (\<^verbatim>\<open>args.yaml\<close>) is a nested mapping from function to group to
  argument to a value or a detail mapping; the names are strings. \<^verbatim>\<open>Database.lang\<close> is
  the list of supported languages.
\<close>

type_synonym schema = "(string \<times> (string \<times> (string \<times> pyval) list) list) list"

type_synonym rowkey = "pyval \<times> pyval \<times> pyval \<times> pyval"

definition lang :: "string list" where
  "lang = [''zh-CN'']"

fun efold :: "('a \<Rightarrow> 's \<Rightarrow> error + 's) \<Rightarrow> 'a list \<Rightarrow> 's \<Rightarrow> error + 's" where
  "efold f [] s = Inr s"
| "efold f (x # xs) s = ebind (f x s) (efold f xs)"

text \<open>\<^verbatim>\<open>(raw['func'], raw['group'], raw['arg'], raw['lang'])\<close>; looking the tuple up in the
  set \<^verbatim>\<open>visited\<close> hashes it.\<close>

definition row_key :: "pydict \<Rightarrow> error + rowkey" where
  "row_key raw =
     ebind (subscript (PDict raw) ''func'') (\<lambda>f.
     ebind (subscript (PDict raw) ''group'') (\<lambda>g.
     ebind (subscript (PDict raw) ''arg'') (\<lambda>a.
     ebind (subscript (PDict raw) ''lang'') (\<lambda>l.
       if hashable f \<and> hashable g \<and> hashable a \<and> hashable l then Inr (f, g, a, l)
       else Inl TypeError))))"

text \<open>
  \<^verbatim>\<open>info(raw)\<close>, lines 218-227: one round of the loop over \<^verbatim>\<open>[None, 'arg', 'group']\<close>,
  on the row being rewritten, the set of visited keys and the rows collected so far;
  then the whole function, which returns the collected rows reversed.
\<close>

definition info_step ::
  "string option \<Rightarrow> pydict \<times> rowkey list \<times> pydict list \<Rightarrow> error + pydict \<times> rowkey list \<times> pydict list"
where
  "info_step replace st =
     (case st of (raw, visited, out) \<Rightarrow>
        (let raw' = (case replace of None \<Rightarrow> raw | Some a \<Rightarrow> dict_set raw (PStr a) (PStr ''_info''))
         in ebind (row_key raw') (\<lambda>key.
              if key \<notin> set visited then Inr (raw', key # visited, out @ [raw'])
              else Inr (raw', visited, out))))"

definition info :: "rowkey list \<Rightarrow> pydict \<Rightarrow> error + pydict list \<times> rowkey list" where
  "info visited raw =
     ebind (efold info_step [None, Some ''arg'', Some ''group''] (raw, visited, []))
       (\<lambda>st. case st of (raw', visited', out) \<Rightarrow> Inr (rev out, visited'))"

text \<open>\<^verbatim>\<open>_data_iter(args)\<close>, lines 215-243: the leaves in iteration order, the row built for
  a leaf and a language, and the rows the generator yields.\<close>

definition leaves :: "schema \<Rightarrow> (string \<times> string \<times> string \<times> pyval) list" where
  "leaves args =
     concat (map (\<lambda>(func, func_data).
       concat (map (\<lambda>(grp, group_data).
         map (\<lambda>(arg, v). (func, grp, arg, v)) group_data) func_data)) args)"

fun leaf_data :: "string \<times> string \<times> string \<times> pyval \<Rightarrow> string \<Rightarrow> pydict" where
  "leaf_data (func, grp, arg, v) lg =
     (let data = [(PStr ''func'', PStr func), (PStr ''group'', PStr grp),
                  (PStr ''arg'', PStr arg), (PStr ''lang'', PStr lg), (PStr ''value'', v)]
      in case v of PDict d \<Rightarrow> dict_update data d | _ \<Rightarrow> data)"

definition data_iter_from :: "rowkey list \<Rightarrow> schema \<Rightarrow> error + rowkey list \<times> pydict list" where
  "data_iter_from visited args =
     efold (\<lambda>data st. case st of (vis, rows) \<Rightarrow>
              ebind (info vis data) (\<lambda>r. case r of (out, vis') \<Rightarrow> Inr (vis', rows @ out)))
       (concat (map (\<lambda>leaf. map (leaf_data leaf) lang) (leaves args)))
       (visited, [])"

definition data_iter :: "schema \<Rightarrow> error + pydict list" where
  "data_iter args = ebind (data_iter_from [] args) (\<lambda>r. Inr (snd r))"

text \<open>\<^verbatim>\<open>_data_merge(old, args)\<close>, lines 245-283.\<close>

definition defaults_row :: pydict where
  "defaults_row =
     [(PStr ''func'', PStr ''''), (PStr ''group'', PStr ''''), (PStr ''arg'', PStr ''''),
      (PStr ''lang'', PStr ''''), (PStr ''name'', PStr ''''), (PStr ''help'', PStr ''''),
      (PStr ''type'', PStr ''input''), (PStr ''value'', PStr ''''), (PStr ''option'', PDict [])]"

text \<open>\<^verbatim>\<open>for k in option\<close>: the keys of a mapping, the items of a list or tuple, the
  characters of a string; nothing else can be iterated.\<close>

fun py_iter :: "pyval \<Rightarrow> error + pyval list" where
  "py_iter (PDict d) = Inr (map fst d)"
| "py_iter (PList xs) = Inr xs"
| "py_iter (PTuple xs) = Inr xs"
| "py_iter (PStr s) = Inr (map (\<lambda>c. PStr [c]) s)"
| "py_iter v = Inl TypeError"

text \<open>\<^verbatim>\<open>{k: deep_get(old, f'option.{k}', default=k) for k in option}\<close>; a key that cannot
  be hashed raises.\<close>

definition option_labels :: "pylib \<Rightarrow> pydict \<Rightarrow> pyval list \<Rightarrow> error + pydict" where
  "option_labels L old ks =
     (if list_all hashable ks
      then Inr (fold (\<lambda>k acc. dict_set acc k
                  (deep_get (PDict old) (''option.'' @ format_str L k) k)) ks [])
      else Inl TypeError)"

definition sticky :: "pydict \<Rightarrow> string \<Rightarrow> string \<Rightarrow> pyval" where
  "sticky old key attr =
     (let v = get_or old attr (PStr '''') in if truthy v then v else PStr (key @ ''.'' @ attr))"

definition data_merge :: "pylib \<Rightarrow> pydict \<Rightarrow> pydict \<Rightarrow> error + pydict" where
  "data_merge L old args =
     (let data = dict_update defaults_row args
      in ebind (data_to_path data) (\<lambda>key.
           let data = fold (\<lambda>attr d. dict_set d (PStr attr) (sticky old key attr))
                        [''name'', ''help''] data
           in ebind (subscript (PDict data) ''option'') (\<lambda>option.
              ebind (if truthy option
                     then ebind (py_iter option) (\<lambda>ks.
                          ebind (option_labels L old ks) (\<lambda>labels.
                            Inr (dict_set data (PStr ''option'') (PDict labels))))
                     else Inr data) (\<lambda>data.
              ebind (subscript (PDict data) ''arg'') (\<lambda>arg.
                Inr (if arg = PStr ''_info''
                     then dict_update data
                            [(PStr ''type'', PStr ''''), (PStr ''value'', PStr ''''),
                             (PStr ''option'', PDict [])]
                     else data))))))"

text \<open>
  The loop of \<^verbatim>\<open>update_db\<close>, lines 178-185, on the old store: for each row of the
  generator, the first old row with the same four identity fields (or the empty mapping)
  is merged with it and the result inserted. Merging does not touch the generator's
  state, so the rows are generated first.
\<close>

definition row_query :: "pydict \<Rightarrow> error + query" where
  "row_query data =
     emap (\<lambda>a. ebind (subscript (PDict data) a) (\<lambda>v. Inr (a, v)))
       [''func'', ''group'', ''arg'', ''lang'']"

definition merge_row :: "pylib \<Rightarrow> pydict list \<Rightarrow> pydict \<Rightarrow> error + pydict" where
  "merge_row L old data =
     ebind (row_query data) (\<lambda>q.
       let res = filter (matches q) old;
           res = (case res of r # _ \<Rightarrow> r | [] \<Rightarrow> [])
       in data_merge L res data)"

definition migrate :: "pylib \<Rightarrow> pydict list \<Rightarrow> schema \<Rightarrow> error + pydict list" where
  "migrate L old args = ebind (data_iter args) (emap (merge_row L old))"

section \<open>The database object\<close>

text \<open>
  The state the methods of \<^verbatim>\<open>Database\<close> read and write: the persisted store
  (\<^verbatim>\<open>args_db.yaml\<close>), the cached property \<^verbatim>\<open>db\<close> (absent until first used), the instance
  configuration files by file name, the caches \<^verbatim>\<open>_config\<close> and \<^verbatim>\<open>_config_updated\<close>, the
  module-level list \<^verbatim>\<open>CONFIG_IMPORT\<close> and the generated code file. A line of generated
  code is a text or a declaration: \<open>Decl path data\<close> stands for the text
  \<^verbatim>\<open>f'    {path_to_arg(path)} = Argument({dict_to_kv(data)})'\<close>, whose rendering is in
  \<^verbatim>\<open>module/config/utils.py\<close>.
\<close>

datatype line = Text string | Decl string pydict

record database =
  db_file :: "pydict list"
  db_cache :: "pydict list option"
  config_files :: "string \<Rightarrow> pyval option"
  cfg_cache :: "pyval \<Rightarrow> pyval option"
  cfg_updated :: "pyval set"
  config_import :: "line list"
  code_file :: "line list"

definition CONFIG_IMPORT :: "line list" where
  "CONFIG_IMPORT =
     [Text ''import datetime'',
      Text '''',
      Text ''from module.config.argument import Argument'',
      Text '''',
      Text ''# This file was automatically generated by module/config/db.py.'',
      Text ''# Don't modify it manually.'',
      Text '''',
      Text '''',
      Text ''class GeneratedConfig:'',
      Text ''    \"\"\"'',
      Text ''    Auto generated configuration'',
      Text ''    \"\"\"'']"

text \<open>A method returns a result or raises, and leaves a state behind in both cases.\<close>

type_synonym 'a action = "database \<Rightarrow> (error + 'a) \<times> database"

definition sbind :: "'a action \<Rightarrow> ('a \<Rightarrow> 'b action) \<Rightarrow> 'b action" where
  "sbind m f s = (case m s of (Inl e, s') \<Rightarrow> (Inl e, s') | (Inr x, s') \<Rightarrow> f x s')"

definition lift :: "error + 'a \<Rightarrow> 'a action" where
  "lift r s = (r, s)"

definition check :: "bool \<Rightarrow> unit action" where
  "check b s = (if b then (Inr (), s) else (Inl AssertionError, s))"

text \<open>The cached property \<^verbatim>\<open>db\<close>, lines 129-136: loaded from the file on first use.\<close>

definition get_db :: "pydict list action" where
  "get_db s =
     (case db_cache s of
        Some d \<Rightarrow> (Inr d, s)
      | None \<Rightarrow> (Inr (db_file s), s\<lparr>db_cache := Some (db_file s)\<rparr>))"

subsection \<open>Instance configurations\<close>

text \<open>Reading an instance file gives the empty mapping if there is none. The file of a
  configuration is named after it.\<close>

definition read_config :: "pylib \<Rightarrow> pyval \<Rightarrow> database \<Rightarrow> pyval" where
  "read_config L config_name s =
     (case config_files s (format_str L config_name) of Some v \<Rightarrow> v | None \<Rightarrow> PDict [])"

definition write_config :: "pylib \<Rightarrow> pyval \<Rightarrow> pyval \<Rightarrow> unit action" where
  "write_config L config_name d s =
     (Inr (), s\<lparr>config_files := (config_files s)(format_str L config_name \<mapsto> d)\<rparr>)"

text \<open>\<^verbatim>\<open>_check_config(data, is_template)\<close>, lines 308-324.\<close>

definition check_config :: "pylib \<Rightarrow> pyval \<Rightarrow> bool \<Rightarrow> pyval" where
  "check_config L d is_template =
     (if is_template then deep_set d ''Alas.DropRecord.AzurStatsID'' PNone
      else deep_default d ''Alas.DropRecord.AzurStatsID'' (random_id L))"

text \<open>\<^verbatim>\<open>update_config(config_name)\<close>, lines 286-306: the body of the loop, then the method.\<close>

definition project_row :: "pylib \<Rightarrow> pyval \<Rightarrow> pydict \<Rightarrow> pyval \<Rightarrow> error + pyval" where
  "project_row L old arg new =
     ebind (subscript (PDict arg) ''group'') (\<lambda>g.
       if g = PStr ''_info'' then Inr new
       else ebind (subscript (PDict arg) ''arg'') (\<lambda>a.
         if a = PStr ''_info'' then Inr new
         else ebind (data_to_path arg) (\<lambda>path.
              ebind (subscript (PDict arg) ''value'') (\<lambda>dv.
              ebind (parse_value L (deep_get old path dv) (PDict arg)) (\<lambda>v.
                Inr (deep_set new path v))))))"

definition update_config :: "pylib \<Rightarrow> pyval \<Rightarrow> pyval action" where
  "update_config L config_name s =
     (let old = read_config L config_name s
      in sbind get_db (\<lambda>db.
         sbind (lift (search db (Some [(''lang'', PStr ''zh-CN'')]))) (\<lambda>arguments.
         sbind (lift (efold (project_row L old) arguments (PDict []))) (\<lambda>new.
           let new = check_config L new (config_name = PStr ''template'')
           in sbind (write_config L config_name new) (\<lambda>u. lift (Inr new))))) s)"

text \<open>\<^verbatim>\<open>config(config_name)\<close>, lines 138-158; the name is a dictionary key, so it is
  hashed.\<close>

definition config :: "pylib \<Rightarrow> pyval \<Rightarrow> pyval action" where
  "config L config_name s =
     (if \<not> hashable config_name then (Inl TypeError, s)
      else case cfg_cache s config_name of
        Some d \<Rightarrow> (Inr d, s)
      | None \<Rightarrow>
          if config_name \<in> cfg_updated s
          then (let d = read_config L config_name s
                in (Inr d, s\<lparr>cfg_cache := (cfg_cache s)(config_name \<mapsto> d)\<rparr>))
          else sbind (update_config L config_name) (\<lambda>d s'.
                 (Inr d, s'\<lparr>cfg_updated := insert config_name (cfg_updated s'),
                             cfg_cache := (cfg_cache s')(config_name \<mapsto> d)\<rparr>)) s)"

subsection \<open>Migration of the store\<close>

text \<open>\<^verbatim>\<open>update_db()\<close>, lines 169-189; \<open>args\<close> is the content of \<^verbatim>\<open>args.yaml\<close>.\<close>

definition update_db :: "pylib \<Rightarrow> schema \<Rightarrow> unit action" where
  "update_db L args =
     sbind get_db (\<lambda>old.
     sbind (lift (migrate L old args)) (\<lambda>new.
     sbind (\<lambda>s. (Inr (), s\<lparr>db_file := new\<rparr>)) (\<lambda>u.
     sbind (update_config L (PStr ''template'')) (\<lambda>t.
       (\<lambda>s. (Inr (), s\<lparr>db_cache := None\<rparr>))))))"

subsection \<open>Code generation\<close>

text \<open>
  \<^verbatim>\<open>update_code()\<close>, lines 191-213. \<^verbatim>\<open>lines = CONFIG_IMPORT\<close> binds the module-level list
  itself, so every \<^verbatim>\<open>lines.append\<close> changes \<^verbatim>\<open>CONFIG_IMPORT\<close>. The body of the loop works on
  the visited paths, the visited functions and the lines; when it raises, the lines
  appended so far stay. The visited functions are a set, so \<^verbatim>\<open>arg['func']\<close> is hashed.
\<close>

type_synonym codegen = "string list \<times> pyval list \<times> line list"

definition code_decl :: "pylib \<Rightarrow> pydict \<Rightarrow> string \<Rightarrow> error + line" where
  "code_decl L arg path =
     ebind (subscript (PDict arg) ''value'') (\<lambda>dv.
     ebind (parse_value L dv (PDict arg)) (\<lambda>v.
     ebind (subscript (PDict arg) ''option'') (\<lambda>option.
     ebind (if truthy option
            then ebind (items option) (\<lambda>d.
                   Inr [(PStr ''value'', v), (PStr ''path'', PStr path),
                        (PStr ''option'', PTuple (map fst d))])
            else Inr [(PStr ''value'', v), (PStr ''path'', PStr path)]) (\<lambda>data.
       Inr (Decl path data)))))"

definition code_path :: "pylib \<Rightarrow> pydict \<Rightarrow> error + string" where
  "code_path L arg =
     ebind (subscript (PDict arg) ''group'') (\<lambda>g.
     ebind (subscript (PDict arg) ''arg'') (\<lambda>a.
       Inr (format_str L g @ ''.'' @ format_str L a)))"

definition code_row :: "pylib \<Rightarrow> pydict \<Rightarrow> codegen \<Rightarrow> error option \<times> codegen" where
  "code_row L arg st =
     (case st of (visited_path, visited_func, lines) \<Rightarrow>
        (case subscript (PDict arg) ''func'' of
           Inl e \<Rightarrow> (Some e, st)
         | Inr f \<Rightarrow>
             if \<not> hashable f then (Some TypeError, st)
             else
               (let (visited_func, lines) =
                      (if f \<notin> set visited_func
                       then (f # visited_func,
                             lines @ [Text '''', Text (''    # Func `'' @ format_str L f @ ''`'')])
                       else (visited_func, lines))
                in case code_path L arg of
                     Inl e \<Rightarrow> (Some e, (visited_path, visited_func, lines))
                   | Inr path \<Rightarrow>
                       if path \<in> set visited_path \<or> contains ''_info'' path
                       then (None, (visited_path, visited_func, lines))
                       else (case code_decl L arg path of
                               Inl e \<Rightarrow> (Some e, (visited_path, visited_func, lines))
                             | Inr l \<Rightarrow>
                                 (None, (path # visited_path, visited_func, lines @ [l]))))))"

fun code_loop :: "pylib \<Rightarrow> pydict list \<Rightarrow> codegen \<Rightarrow> error option \<times> codegen" where
  "code_loop L [] st = (None, st)"
| "code_loop L (arg # args) st =
     (case code_row L arg st of
        (None, st') \<Rightarrow> code_loop L args st'
      | (Some e, st') \<Rightarrow> (Some e, st'))"

definition update_code :: "pylib \<Rightarrow> unit action" where
  "update_code L =
     sbind get_db (\<lambda>db.
     sbind (lift (search db (request_to_query [(PStr ''lang'', PStr ''zh-CN'')]))) (\<lambda>args s.
       (case code_loop L args ([], [], config_import s) of
          (Some e, (vp, vf, lines)) \<Rightarrow> (Inl e, s\<lparr>config_import := lines\<rparr>)
        | (None, (vp, vf, lines)) \<Rightarrow>
            (Inr (), s\<lparr>config_import := lines, code_file := lines\<rparr>))))"

subsection \<open>Selection and upsert\<close>

text \<open>\<^verbatim>\<open>select_db(request)\<close>, lines 326-345.\<close>

definition select_db :: "pydict \<Rightarrow> pyval action" where
  "select_db request =
     sbind (check (truthy (get_or request ''func'' PNone) \<or> truthy (get_or request ''group'' PNone)
                   \<or> truthy (get_or request ''arg'' PNone))) (\<lambda>u.
     sbind get_db (\<lambda>db.
     sbind (lift (search db (request_to_query request))) (\<lambda>result.
       lift (efold (\<lambda>arg response.
               ebind (data_to_path arg) (\<lambda>path. Inr (deep_set response path (PDict arg))))
             result (PDict [])))))"

text \<open>\<^verbatim>\<open>select_config(request)\<close>, lines 347-371.\<close>

definition select_config :: "pylib \<Rightarrow> pydict \<Rightarrow> pyval action" where
  "select_config L request =
     (let func = get_or request ''func'' PNone;
          grp = get_or request ''group'' PNone;
          arg = get_or request ''arg'' PNone;
          cfg = get_or request ''config'' PNone
      in sbind (check (truthy func)) (\<lambda>u.
         sbind (check (truthy cfg)) (\<lambda>u.
         sbind (select_db request) (\<lambda>response.
         sbind (lift (emap the_str (filter truthy [func, grp, arg]))) (\<lambda>ws.
         sbind (config L cfg) (\<lambda>d.
           lift (Inr (deep_set response (join_dot ws) (deep_get d (join_dot ws) PNone)))))))))"

text \<open>\<^verbatim>\<open>select_function(request)\<close>, lines 373-392: the three nested loops that overlay
  the live values, then the method.\<close>

definition overlay_arg :: "pylib \<Rightarrow> pyval \<Rightarrow> pyval \<Rightarrow> pyval \<times> pyval \<Rightarrow> pyval \<Rightarrow> error + pyval" where
  "overlay_arg L func grp av database =
     (case av of (arg, v) \<Rightarrow>
        Inr (if v \<noteq> PNone
             then deep_set database
                    (format_str L func @ ''.'' @ format_str L grp @ ''.'' @ format_str L arg
                       @ ''.value'') v
             else database))"

definition overlay_group :: "pylib \<Rightarrow> pyval \<Rightarrow> pyval \<times> pyval \<Rightarrow> pyval \<Rightarrow> error + pyval" where
  "overlay_group L func gd database =
     (case gd of (grp, group_data) \<Rightarrow>
        ebind (items group_data) (\<lambda>avs. efold (overlay_arg L func grp) avs database))"

definition overlay_func :: "pylib \<Rightarrow> pyval \<times> pyval \<Rightarrow> pyval \<Rightarrow> error + pyval" where
  "overlay_func L fd database =
     (case fd of (func, func_data) \<Rightarrow>
        ebind (items func_data) (\<lambda>gds. efold (overlay_group L func) gds database))"

definition overlay :: "pylib \<Rightarrow> pyval \<Rightarrow> pyval \<Rightarrow> error + pyval" where
  "overlay L cfg database = ebind (items cfg) (\<lambda>fds. efold (overlay_func L) fds database)"

definition select_function :: "pylib \<Rightarrow> pydict \<Rightarrow> pyval action" where
  "select_function L request =
     (let func = get_or request ''func'' PNone;
          lg = get_or request ''lang'' PNone;
          cfg = get_or request ''config'' PNone
      in sbind (check (truthy func)) (\<lambda>u.
         sbind (check (truthy lg)) (\<lambda>u.
         sbind (check (truthy cfg)) (\<lambda>u.
           let request = [(PStr ''func'', func), (PStr ''lang'', lg), (PStr ''config'', cfg)]
           in sbind (select_db request) (\<lambda>database.
              sbind (select_config L request) (\<lambda>c.
                lift (overlay L c database)))))))"

text \<open>
  \<^verbatim>\<open>upsert_config(request)\<close>, lines 394-421. \<^verbatim>\<open>deep_set\<close> changes the cached configuration
  in place, which is a mapping whenever \<^verbatim>\<open>update_config\<close> built it.
\<close>

definition set_cached :: "pyval \<Rightarrow> string \<Rightarrow> pyval \<Rightarrow> pyval \<Rightarrow> unit action" where
  "set_cached config_name path v d s =
     (case d of
        PDict m \<Rightarrow> (Inr (), s\<lparr>cfg_cache := (cfg_cache s)(config_name \<mapsto> deep_set d path v)\<rparr>)
      | _ \<Rightarrow> (Inr (), s))"

definition upsert_config :: "pylib \<Rightarrow> pydict \<Rightarrow> pyval action" where
  "upsert_config L request =
     (let func = get_or request ''func'' PNone;
          grp = get_or request ''group'' PNone;
          arg = get_or request ''arg'' PNone;
          lg = get_or request ''lang'' PNone;
          v = get_or request ''value'' PNone;
          cfg = get_or request ''config'' PNone
      in sbind (check (truthy func \<and> truthy grp \<and> truthy arg \<and> truthy lg)) (\<lambda>u.
         sbind (check (v \<noteq> PNone)) (\<lambda>u.
         sbind (check (truthy cfg)) (\<lambda>u.
         sbind (lift (data_to_path request)) (\<lambda>path.
         sbind (select_db request) (\<lambda>response.
           let default = deep_get response path PNone
           in sbind (lift (parse_value L v default)) (\<lambda>v.
              sbind (lift (if v = PNone then subscript default ''value'' else Inr v)) (\<lambda>v.
              sbind (config L cfg) (\<lambda>d.
              sbind (set_cached cfg path v d) (\<lambda>u.
              sbind (select_function L
                       [(PStr ''func'', func), (PStr ''lang'', lg), (PStr ''config'', cfg)])
                (\<lambda>response.
              sbind (config L cfg) (\<lambda>d.
              sbind (write_config L cfg d) (\<lambda>u.
                lift (Inr response))))))))))))))"

text \<open>\<^verbatim>\<open>upsert_db(request)\<close>, lines 423-434: the update changes the rows of the cached
  database, which is then saved.\<close>

definition upsert_db :: "pylib \<Rightarrow> pydict \<Rightarrow> pyval action" where
  "upsert_db L request =
     (let func = get_or request ''func'' PNone;
          grp = get_or request ''group'' PNone;
          arg = get_or request ''arg'' PNone;
          lg = get_or request ''lang'' PNone;
          cfg = get_or request ''config'' PNone
      in sbind (check (truthy func \<and> truthy grp \<and> truthy arg \<and> truthy lg)) (\<lambda>u.
         sbind get_db (\<lambda>db.
         sbind (lift (db_update db request (request_to_query request))) (\<lambda>db'.
         sbind (\<lambda>s. (Inr (), s\<lparr>db_cache := Some db', db_file := db'\<rparr>)) (\<lambda>u.
           select_function L
             [(PStr ''func'', func), (PStr ''lang'', lg), (PStr ''config'', cfg)])))))"

text \<open>\<^verbatim>\<open>select_menu(request)\<close>, lines 436-448.\<close>

definition select_menu :: "pydict \<Rightarrow> pyval action" where
  "select_menu request =
     sbind (check (truthy (get_or request ''lang'' PNone))) (\<lambda>u.
       select_db [(PStr ''group'', PStr ''_info''), (PStr ''lang'', get_or request ''lang'' PNone)])"

section \<open>A sample library\<close>

text \<open>
  An instance of the library for evaluating examples. It converts the strings that
  CPython converts in the same way when they are plain: an optional sign and decimal
  digits for \<^verbatim>\<open>int\<close>, digits, a dot and digits for \<^verbatim>\<open>float\<close>, a date \<^verbatim>\<open>YYYY-MM-DD\<close> for
  \<^verbatim>\<open>fromisoformat\<close>; it rejects every other string. \<^verbatim>\<open>str\<close> renders \<^verbatim>\<open>None\<close>, booleans and
  integers.
\<close>

definition digit_of :: "char \<Rightarrow> nat option" where
  "digit_of c =
     map_of [(CHR ''0'', 0), (CHR ''1'', 1), (CHR ''2'', 2), (CHR ''3'', 3), (CHR ''4'', 4),
             (CHR ''5'', 5), (CHR ''6'', 6), (CHR ''7'', 7), (CHR ''8'', 8), (CHR ''9'', 9)] c"

fun digits_from :: "nat \<Rightarrow> string \<Rightarrow> nat option" where
  "digits_from n [] = Some n"
| "digits_from n (c # cs) =
     (case digit_of c of None \<Rightarrow> None | Some d \<Rightarrow> digits_from (10 * n + d) cs)"

definition digits :: "string \<Rightarrow> nat option" where
  "digits s = (if s = [] then None else digits_from 0 s)"

definition sample_int :: "string \<Rightarrow> int option" where
  "sample_int s =
     (case s of
        [] \<Rightarrow> None
      | c # cs \<Rightarrow>
          if c = CHR ''-'' then map_option (\<lambda>n. - int n) (digits cs)
          else if c = CHR ''+'' then map_option int (digits cs)
          else map_option int (digits s))"

definition sample_float :: "string \<Rightarrow> rat option" where
  "sample_float s =
     (case split_dot s of
        [ip, fp] \<Rightarrow>
          (case (digits ip, digits fp) of
             (Some i, Some f) \<Rightarrow> Some (of_nat i + of_nat f / 10 ^ length fp)
           | _ \<Rightarrow> None)
      | _ \<Rightarrow> None)"

definition sample_date :: "string \<Rightarrow> pydatetime option" where
  "sample_date s =
     (if length s = 10 \<and> s ! 4 = CHR ''-'' \<and> s ! 7 = CHR ''-''
      then (case (digits (take 4 s), digits (take 2 (drop 5 s)), digits (drop 8 s)) of
              (Some y, Some m, Some d) \<Rightarrow>
                if 1 \<le> y \<and> 1 \<le> m \<and> m \<le> 12 \<and> 1 \<le> d \<and> d \<le> 28
                then Some (Datetime (int y) (int m) (int d) 0 0 0 0) else None
            | _ \<Rightarrow> None)
      else None)"

fun nat_str :: "nat \<Rightarrow> string" where
  "nat_str n =
     (if n < 10 then [''0123456789'' ! n]
      else nat_str (n div 10) @ [''0123456789'' ! (n mod 10)])"

fun sample_str :: "pyval \<Rightarrow> string" where
  "sample_str PNone = ''None''"
| "sample_str (PBool b) = (if b then ''True'' else ''False'')"
| "sample_str (PInt i) = (if i < 0 then ''-'' @ nat_str (nat (- i)) else nat_str (nat i))"
| "sample_str v = ''''"

definition sample_lib :: pylib where
  "sample_lib =
     \<lparr>py_int = sample_int, py_float = sample_float, py_fromisoformat = sample_date,
      py_str = sample_str, random_id = PStr ''id0''\<rparr>"

text \<open>What CPython's conversions do with the literals of the value typing examples.\<close>

definition cpython_literals :: "pylib \<Rightarrow> bool" where
  "cpython_literals L \<longleftrightarrow>
     py_int L ''3'' = Some 3 \<and>
     py_float L ''3.5'' = Some (7 / 2) \<and>
     py_int L ''abc'' = None \<and> py_fromisoformat L ''abc'' = None \<and>
     py_int L ''2024-01-01'' = None \<and>
     py_fromisoformat L ''2024-01-01'' = Some (Datetime 2024 1 1 0 0 0 0)"

definition empty_db :: database where
  "empty_db =
     \<lparr>db_file = [], db_cache = None, config_files = Map.empty, cfg_cache = Map.empty,
      cfg_updated = {}, config_import = CONFIG_IMPORT, code_file = []\<rparr>"

text \<open>Two store rows: one without options, one with the options \<open>a\<close> and \<open>b\<close>.\<close>

definition row_plain :: pydict where
  "row_plain = [(PStr ''value'', PInt 7), (PStr ''option'', PDict [])]"

definition row_enum :: pydict where
  "row_enum =
     [(PStr ''value'', PStr ''a''),
      (PStr ''option'', PDict [(PStr ''a'', PStr ''Alpha''), (PStr ''b'', PStr ''b'')])]"

section \<open>Auxiliary notions\<close>

text \<open>The store as the methods see it (the cached copy if there is one); states that hold
  the same store; actions that leave the store alone: the file keeps its content, and
  the cache stays as it is or is loaded from the file.\<close>

definition current_db :: "database \<Rightarrow> pydict list" where
  "current_db s = (case db_cache s of Some d \<Rightarrow> d | None \<Rightarrow> db_file s)"

definition same_db :: "database \<Rightarrow> database \<Rightarrow> bool" where
  "same_db s s' \<longleftrightarrow> db_file s' = db_file s \<and>
     (db_cache s' = db_cache s \<or> db_cache s = None \<and> db_cache s' = Some (db_file s))"

definition keeps_db :: "'a action \<Rightarrow> bool" where
  "keeps_db m \<longleftrightarrow> (\<forall>s. same_db s (snd (m s)))"

text \<open>A row has the four identity fields of a request.\<close>

definition same_key :: "pydict \<Rightarrow> pydict \<Rightarrow> bool" where
  "same_key request row \<longleftrightarrow>
     field row ''func'' = Some (get_or request ''func'' PNone) \<and>
     field row ''group'' = Some (get_or request ''group'' PNone) \<and>
     field row ''arg'' = Some (get_or request ''arg'' PNone) \<and>
     field row ''lang'' = Some (get_or request ''lang'' PNone)"

text \<open>The store that the schema definition \<^verbatim>\<open>{"Main": {"Scheduler": {"Interval": 10}}}\<close>
  gives, and a database that holds it.\<close>

definition demo_schema :: schema where
  "demo_schema = [(''Main'', [(''Scheduler'', [(''Interval'', PInt 10)])])]"

definition demo_row :: "string \<Rightarrow> string \<Rightarrow> string \<Rightarrow> pyval \<Rightarrow> pydict" where
  "demo_row grp arg ty v =
     [(PStr ''func'', PStr ''Main''), (PStr ''group'', PStr grp), (PStr ''arg'', PStr arg),
      (PStr ''lang'', PStr ''zh-CN''),
      (PStr ''name'', PStr (''Main.'' @ grp @ ''.'' @ arg @ ''.name'')),
      (PStr ''help'', PStr (''Main.'' @ grp @ ''.'' @ arg @ ''.help'')),
      (PStr ''type'', PStr ty), (PStr ''value'', v), (PStr ''option'', PDict [])]"

definition demo_store :: "pydict list" where
  "demo_store =
     [demo_row ''_info'' ''_info'' '''' (PStr ''''),
      demo_row ''Scheduler'' ''_info'' '''' (PStr ''''),
      demo_row ''Scheduler'' ''Interval'' ''input'' (PInt 10)]"

definition demo_db :: database where
  "demo_db = empty_db\<lparr>db_file := demo_store\<rparr>"

definition demo_request :: "pydict \<Rightarrow> pydict" where
  "demo_request extra =
     [(PStr ''func'', PStr ''Main''), (PStr ''group'', PStr ''Scheduler''),
      (PStr ''arg'', PStr ''Interval''), (PStr ''lang'', PStr ''zh-CN'')] @ extra"

text \<open>The number of declaration lines for a path, and the rows of the canonical language.\<close>

fun decl_for :: "string \<Rightarrow> line \<Rightarrow> bool" where
  "decl_for p (Decl q d) = (q = p)"
| "decl_for p (Text t) = False"

definition decl_count :: "string \<Rightarrow> line list \<Rightarrow> nat" where
  "decl_count p ls = length (filter (decl_for p) ls)"

definition canonical_rows :: "database \<Rightarrow> pydict list" where
  "canonical_rows s = filter (matches [(''lang'', PStr ''zh-CN'')]) (current_db s)"

text \<open>Two functions that share the group \<open>Scheduler\<close> and its argument \<open>Enable\<close>.\<close>

definition task_row :: "string \<Rightarrow> pyval \<Rightarrow> pydict" where
  "task_row func v =
     [(PStr ''func'', PStr func), (PStr ''group'', PStr ''Scheduler''),
      (PStr ''arg'', PStr ''Enable''), (PStr ''lang'', PStr ''zh-CN''),
      (PStr ''name'', PStr ''Enable''), (PStr ''help'', PStr ''''),
      (PStr ''type'', PStr ''input''), (PStr ''value'', v), (PStr ''option'', PDict [])]"

definition tasks_db :: database where
  "tasks_db =
     empty_db\<lparr>db_file := [task_row ''Task1'' (PBool True), task_row ''Task2'' (PBool False)]\<rparr>"

text \<open>An action keeps a property of the state.\<close>

definition stable :: "(database \<Rightarrow> bool) \<Rightarrow> 'a action \<Rightarrow> bool" where
  "stable P m \<longleftrightarrow> (\<forall>s. P s \<longrightarrow> P (snd (m s)))"

text \<open>The instance configurations of a state: the cache and the files.\<close>

definition cfg_is :: "(pyval \<Rightarrow> pyval option) \<Rightarrow> (string \<Rightarrow> pyval option) \<Rightarrow> database \<Rightarrow> bool" where
  "cfg_is c f s \<longleftrightarrow> cfg_cache s = c \<and> config_files s = f"

text \<open>A store row whose default is \<^verbatim>\<open>None\<close>, and a database that holds it.\<close>

definition note_db :: database where
  "note_db = empty_db\<lparr>db_file := [demo_row ''Scheduler'' ''Note'' ''input'' PNone]\<rparr>"

definition note_request :: "pyval \<Rightarrow> pydict" where
  "note_request v =
     [(PStr ''func'', PStr ''Main''), (PStr ''group'', PStr ''Scheduler''),
      (PStr ''arg'', PStr ''Note''), (PStr ''lang'', PStr ''zh-CN''),
      (PStr ''value'', v), (PStr ''config'', PStr ''demo'')]"

text \<open>Instance configurations are mappings, in the cache and in the files.\<close>

fun is_dict :: "pyval \<Rightarrow> bool" where
  "is_dict (PDict m) = True"
| "is_dict v = False"

definition configs_are_mappings :: "database \<Rightarrow> bool" where
  "configs_are_mappings s \<longleftrightarrow>
     (\<forall>n d. cfg_cache s n = Some d \<longrightarrow> is_dict d) \<and>
     (\<forall>f d. config_files s f = Some d \<longrightarrow> is_dict d)"

text \<open>The request that \<^verbatim>\<open>select_function\<close> rebuilds (line 381), and the live value of an
  instance configuration at function, group and argument.\<close>

definition function_request :: "pydict \<Rightarrow> pydict" where
  "function_request request =
     [(PStr ''func'', get_or request ''func'' PNone), (PStr ''lang'', get_or request ''lang'' PNone),
      (PStr ''config'', get_or request ''config'' PNone)]"


text \<open>Names without a dot; a mapping whose keys are such names, each once.\<close>

definition plain :: "string \<Rightarrow> bool" where
  "plain w \<longleftrightarrow> CHR ''.'' \<notin> set w"



text \<open>A store row whose default is the empty string, and a database that holds it.\<close>

definition blank_db :: database where
  "blank_db = empty_db\<lparr>db_file := [demo_row ''Scheduler'' ''Note'' ''input'' (PStr '''')]\<rparr>"



text \<open>Info rows, and rows whose three names are strings without a dot.\<close>

definition is_info :: "pydict \<Rightarrow> bool" where
  "is_info row \<longleftrightarrow>
     field row ''group'' = Some (PStr ''_info'') \<or> field row ''arg'' = Some (PStr ''_info'')"

definition plain_row :: "pydict \<Rightarrow> bool" where
  "plain_row row \<longleftrightarrow>
     (\<exists>f g a. field row ''func'' = Some (PStr f) \<and> field row ''group'' = Some (PStr g) \<and>
        field row ''arg'' = Some (PStr a) \<and> plain f \<and> plain g \<and> plain a)"

text \<open>The store rows that a projection reads: those of the canonical language that are
  not info rows.\<close>

definition argument_rows :: "database \<Rightarrow> pydict list" where
  "argument_rows s = filter (\<lambda>row. \<not> is_info row) (canonical_rows s)"

text \<open>The four identity fields of a row, and the schema definitions of the examples: an
  enumeration \<open>Mode\<close> with the options \<open>a\<close> and \<open>b\<close>, and a group that is itself named
  \<open>_info\<close>.\<close>

definition identity :: "pydict \<Rightarrow> pyval option \<times> pyval option \<times> pyval option \<times> pyval option" where
  "identity row = (field row ''func'', field row ''group'', field row ''arg'', field row ''lang'')"

definition mode_schema :: schema where
  "mode_schema =
     [(''Main'', [(''Scheduler'',
        [(''Mode'', PDict [(PStr ''value'', PStr ''a''),
                           (PStr ''option'', PList [PStr ''a'', PStr ''b''])])])])]"

definition info_schema :: schema where
  "info_schema = [(''Main'', [(''_info'', [(''Note'', PInt 1)])])]"

text \<open>The invariant of the generator \<^verbatim>\<open>_data_iter\<close>: the rows yielded so far are
  dictionaries with pairwise different keys, the visited keys are exactly theirs, and
  the info keys of every row have been visited.\<close>

definition covered :: "rowkey list \<Rightarrow> pydict list \<Rightarrow> bool" where
  "covered vis rows \<longleftrightarrow>
     (\<forall>r \<in> set rows. distinct (map fst r) \<and> (\<exists>k. row_key r = Inr k \<and> k \<in> set vis)) \<and>
     distinct (map row_key rows) \<and>
     (\<forall>k \<in> set vis. \<exists>r \<in> set rows. row_key r = Inr k)"

definition closed :: "rowkey list \<Rightarrow> pydict list \<Rightarrow> bool" where
  "closed vis rows \<longleftrightarrow>
     (\<forall>r \<in> set rows. \<forall>f g a l. row_key r = Inr (f, g, a, l) \<longrightarrow>
        (f, g, PStr ''_info'', l) \<in> set vis \<and> (f, PStr ''_info'', PStr ''_info'', l) \<in> set vis)"

section \<open>Properties\<close>

subsection \<open>Sequencing\<close>

lemma ebind_Inl [simp]: "ebind (Inl e) f = Inl e"
  by (simp add: ebind_def)

lemma ebind_Inr [simp]: "ebind (Inr x) f = f x"
  by (simp add: ebind_def)

lemma ebind_eq_Inr: "ebind m f = Inr y \<longleftrightarrow> (\<exists>x. m = Inr x \<and> f x = Inr y)"
  by (cases m) simp_all

lemma sbind_Inl: "m s = (Inl e, s') \<Longrightarrow> sbind m f s = (Inl e, s')"
  by (simp add: sbind_def)

lemma sbind_Inr: "m s = (Inr x, s') \<Longrightarrow> sbind m f s = f x s'"
  by (simp add: sbind_def)

lemma sbind_lift [simp]: "sbind (lift r) f s = (case r of Inl e \<Rightarrow> (Inl e, s) | Inr x \<Rightarrow> f x s)"
  by (cases r) (simp_all add: sbind_def lift_def)

lemma sbind_check [simp]:
  "sbind (check b) f s = (if b then f () s else (Inl AssertionError, s))"
  by (simp add: sbind_def check_def)

subsection \<open>Value typing\<close>

lemma sample_lib_literals: "cpython_literals sample_lib"
  by (simp add: cpython_literals_def sample_lib_def sample_int_def sample_float_def
      sample_date_def digits_def digit_of_def)

lemma parse_value_unconstrained:
  assumes "field row ''option'' = Some opt" and "\<not> truthy opt"
  shows "parse_value L v (PDict row) = Inr (case v of PStr s \<Rightarrow> parse_str L s | _ \<Rightarrow> v)"
  using assms by (cases v) (simp_all add: parse_value_def)

lemma parse_value_rejected:
  assumes "field row ''option'' = Some opt" and "truthy opt" and "py_in v opt = Inr False"
  shows "parse_value L v (PDict row) = subscript (PDict row) ''value''"
  using assms by (simp add: parse_value_def)

text \<open>
  C3. With no option constraint (the row's option set is empty), \<^verbatim>\<open>parse_value\<close> maps
  \<^verbatim>\<open>"3"\<close> to the integer 3, \<^verbatim>\<open>"3.5"\<close> to the float 3.5, the empty string to \<^verbatim>\<open>None\<close>,
  \<^verbatim>\<open>"abc"\<close> to itself and \<^verbatim>\<open>"2024-01-01"\<close> to a timestamp; and for a row with a non-empty
  option set, a raw value that is not in the set yields the row's default value.
\<close>

theorem parse_value_typing:
  assumes "cpython_literals L"
  shows "(\<forall>row opt. field row ''option'' = Some opt \<and> \<not> truthy opt \<longrightarrow>
            parse_value L (PStr ''3'') (PDict row) = Inr (PInt 3) \<and>
            parse_value L (PStr ''3.5'') (PDict row) = Inr (PFloat (7 / 2)) \<and>
            parse_value L (PStr '''') (PDict row) = Inr PNone \<and>
            parse_value L (PStr ''abc'') (PDict row) = Inr (PStr ''abc'') \<and>
            parse_value L (PStr ''2024-01-01'') (PDict row)
              = Inr (PDatetime (Datetime 2024 1 1 0 0 0 0))) \<and>
         (\<forall>row opt dflt v. field row ''option'' = Some opt \<and> truthy opt \<and>
            field row ''value'' = Some dflt \<and> py_in v opt = Inr False \<longrightarrow>
            parse_value L v (PDict row) = Inr dflt)"
proof (intro conjI allI impI)
  fix row opt
  assume h: "field row ''option'' = Some opt \<and> \<not> truthy opt"
  note lits = assms [unfolded cpython_literals_def]
  note pv = parse_value_unconstrained [of row opt, OF conjunct1 [OF h] conjunct2 [OF h]]
  show "parse_value L (PStr ''3'') (PDict row) = Inr (PInt 3)"
    using lits by (simp add: pv parse_str_def)
  show "parse_value L (PStr ''3.5'') (PDict row) = Inr (PFloat (7 / 2))"
    using lits by (simp add: pv parse_str_def)
  show "parse_value L (PStr '''') (PDict row) = Inr PNone"
    by (simp add: pv parse_str_def)
  show "parse_value L (PStr ''abc'') (PDict row) = Inr (PStr ''abc'')"
    using lits by (simp add: pv parse_str_def)
  show "parse_value L (PStr ''2024-01-01'') (PDict row)
          = Inr (PDatetime (Datetime 2024 1 1 0 0 0 0))"
    using lits by (simp add: pv parse_str_def)
next
  fix row opt dflt v
  assume "field row ''option'' = Some opt \<and> truthy opt \<and>
            field row ''value'' = Some dflt \<and> py_in v opt = Inr False"
  then show "parse_value L v (PDict row) = Inr dflt"
    by (simp add: parse_value_rejected [of row opt v])
qed


theorem parse_value_typing_witness:
  "parse_value sample_lib (PStr ''3'') (PDict row_plain) = Inr (PInt 3) \<and>
   parse_value sample_lib (PStr ''3.5'') (PDict row_plain) = Inr (PFloat (7 / 2)) \<and>
   parse_value sample_lib (PStr '''') (PDict row_plain) = Inr PNone \<and>
   parse_value sample_lib (PStr ''abc'') (PDict row_plain) = Inr (PStr ''abc'') \<and>
   parse_value sample_lib (PStr ''2024-01-01'') (PDict row_plain)
     = Inr (PDatetime (Datetime 2024 1 1 0 0 0 0)) \<and>
   parse_value sample_lib (PStr ''c'') (PDict row_enum) = Inr (PStr ''a'')"
proof -
  have a: "field row_plain ''option'' = Some (PDict []) \<and> \<not> truthy (PDict [])"
    by (simp add: row_plain_def field_def)
  have b: "field row_enum ''option'' = Some (PDict [(PStr ''a'', PStr ''Alpha''), (PStr ''b'', PStr ''b'')])
      \<and> truthy (PDict [(PStr ''a'', PStr ''Alpha''), (PStr ''b'', PStr ''b'')])
      \<and> field row_enum ''value'' = Some (PStr ''a'')
      \<and> py_in (PStr ''c'') (PDict [(PStr ''a'', PStr ''Alpha''), (PStr ''b'', PStr ''b'')]) = Inr False"
    by (simp add: row_enum_def field_def)
  from parse_value_typing [OF sample_lib_literals] a b show ?thesis
    by blast
qed

subsection \<open>Dictionaries\<close>

lemma map_of_dict_set: "map_of (dict_set d k v) = (map_of d)(k \<mapsto> v)"
  by (simp add: dict_set_def update_conv')

lemma map_of_dict_update: "map_of (dict_update d e) = map_of d ++ map_of (rev e)"
  unfolding dict_update_def
proof (induction e arbitrary: d)
  case Nil
  show ?case by simp
next
  case (Cons x e)
  obtain k v where x: "x = (k, v)" by (cases x)
  show ?case
    by (simp add: x Cons.IH map_of_dict_set map_add_def fun_eq_iff split: option.splits)
qed

lemma dict_update_receives:
  assumes "distinct (map fst e)" and "(k, v) \<in> set e"
  shows "map_of (dict_update d e) k = Some v"
proof -
  have "map_of (rev e) k = Some v"
    using assms by (intro map_of_is_SomeI) (simp_all add: rev_map [symmetric])
  then show ?thesis by (simp add: map_of_dict_update)
qed

lemma dict_update_frame:
  assumes "k \<notin> fst ` set e"
  shows "map_of (dict_update d e) k = map_of d k"
proof -
  have "map_of (rev e) k = None"
    using assms by (simp add: map_of_eq_None_iff)
  then show ?thesis by (simp add: map_of_dict_update map_add_def)
qed

subsection \<open>Actions that leave the store alone\<close>

lemma same_db_refl [simp]: "same_db s s"
  by (simp add: same_db_def)

lemma same_db_trans: "same_db s s' \<Longrightarrow> same_db s' s'' \<Longrightarrow> same_db s s''"
  by (auto simp: same_db_def)


lemma keeps_dbD: "keeps_db m \<Longrightarrow> same_db s (snd (m s))"
  by (simp add: keeps_db_def)

lemma keeps_db_sbind:
  assumes "keeps_db m" and "\<And>x. keeps_db (f x)"
  shows "keeps_db (sbind m f)"
  unfolding keeps_db_def
proof
  fix s
  obtain r s' where ms: "m s = (r, s')" by (cases "m s")
  have m: "same_db s s'"
    using keeps_dbD [OF assms(1), of s] ms by simp
  show "same_db s (snd (sbind m f s))"
  proof (cases r)
    case (Inl e)
    then show ?thesis using ms m by (simp add: sbind_def)
  next
    case (Inr x)
    have "sbind m f s = f x s'" using ms Inr by (simp add: sbind_def)
    then show ?thesis
      using same_db_trans [OF m keeps_dbD [OF assms(2), of s' x]] by simp
  qed
qed

lemma keeps_db_lift [simp]: "keeps_db (lift r)"
  by (simp add: keeps_db_def lift_def)

lemma keeps_db_check [simp]: "keeps_db (check b)"
  by (simp add: keeps_db_def check_def)

lemma keeps_db_get_db [simp]: "keeps_db get_db"
  by (simp add: keeps_db_def get_db_def same_db_def split: option.splits)

lemma keeps_db_write_config [simp]: "keeps_db (write_config L n d)"
  by (simp add: keeps_db_def write_config_def same_db_def)

lemma keeps_db_update_config [simp]: "keeps_db (update_config L n)"
  unfolding keeps_db_def
proof
  fix s
  define old where "old = read_config L n s"
  have "keeps_db (sbind get_db (\<lambda>db.
         sbind (lift (search db (Some [(''lang'', PStr ''zh-CN'')]))) (\<lambda>arguments.
         sbind (lift (efold (project_row L old) arguments (PDict []))) (\<lambda>new.
           sbind (write_config L n (check_config L new (n = PStr ''template'')))
             (\<lambda>u. lift (Inr (check_config L new (n = PStr ''template''))))))))"
    by (intro keeps_db_sbind keeps_db_lift keeps_db_get_db keeps_db_write_config)
  from keeps_dbD [OF this, of s] show "same_db s (snd (update_config L n s))"
    by (simp only: update_config_def Let_def old_def)
qed

lemma keeps_db_config [simp]: "keeps_db (config L n)"
  unfolding keeps_db_def
proof
  fix s
  have "keeps_db (sbind (update_config L n) (\<lambda>d s'.
                 (Inr d, s'\<lparr>cfg_updated := insert n (cfg_updated s'),
                             cfg_cache := (cfg_cache s')(n \<mapsto> d)\<rparr>)))"
    by (intro keeps_db_sbind keeps_db_update_config) (simp add: keeps_db_def same_db_def)
  from keeps_dbD [OF this, of s] show "same_db s (snd (config L n s))"
    by (simp add: config_def Let_def same_db_def split: option.splits)
qed

lemma keeps_db_select_db [simp]: "keeps_db (select_db request)"
  unfolding select_db_def
  by (intro keeps_db_sbind keeps_db_lift keeps_db_get_db keeps_db_check)

lemma keeps_db_select_config [simp]: "keeps_db (select_config L request)"
  unfolding select_config_def Let_def
  by (intro keeps_db_sbind keeps_db_lift keeps_db_check keeps_db_select_db keeps_db_config)

lemma keeps_db_select_function [simp]: "keeps_db (select_function L request)"
  unfolding select_function_def Let_def
  by (intro keeps_db_sbind keeps_db_lift keeps_db_check keeps_db_select_db keeps_db_select_config)

lemma get_db_result: "get_db s = (Inr (current_db s), s\<lparr>db_cache := Some (current_db s)\<rparr>)"
  by (cases "db_cache s") (simp_all add: get_db_def current_db_def)

lemma sbind_get_db [simp]:
  "sbind get_db f s = f (current_db s) (s\<lparr>db_cache := Some (current_db s)\<rparr>)"
  by (simp add: sbind_def get_db_result)

lemma sbind_pure [simp]: "sbind (\<lambda>s. (Inr x, g s)) f s = f x (g s)"
  by (simp add: sbind_def)

subsection \<open>Upsert of schema rows\<close>

lemma request_to_query_full:
  assumes "truthy (get_or request ''func'' PNone)" "truthy (get_or request ''group'' PNone)"
    "truthy (get_or request ''arg'' PNone)" "truthy (get_or request ''lang'' PNone)"
  shows "request_to_query request =
     Some [(''func'', get_or request ''func'' PNone), (''group'', get_or request ''group'' PNone),
           (''arg'', get_or request ''arg'' PNone), (''lang'', get_or request ''lang'' PNone)]"
  using assms by (simp add: request_to_query_def)

lemma upsert_db_store:
  assumes "truthy (get_or request ''func'' PNone)" "truthy (get_or request ''group'' PNone)"
    "truthy (get_or request ''arg'' PNone)" "truthy (get_or request ''lang'' PNone)"
  shows "db_file (snd (upsert_db L request s)) =
     map (\<lambda>row. if same_key request row then dict_update row request else row) (current_db s)"
proof -
  define db' where "db' = map (\<lambda>row. if same_key request row then dict_update row request else row) (current_db s)"
  define req' where "req' = [(PStr ''func'', get_or request ''func'' PNone), (PStr ''lang'', get_or request ''lang'' PNone),
     (PStr ''config'', get_or request ''config'' PNone)]"
  define s1 where "s1 = s\<lparr>db_cache := Some (current_db s)\<rparr>"
  have g: "get_db s = (Inr (current_db s), s1)"
    by (simp add: get_db_result s1_def)
  have u: "db_update (current_db s) request (request_to_query request) = Inr db'"
    by (simp add: db_update_def request_to_query_full [OF assms] db'_def matches_def same_key_def)
  have "upsert_db L request s = select_function L req' (s1\<lparr>db_cache := Some db', db_file := db'\<rparr>)"
    using assms by (simp add: upsert_db_def Let_def req'_def u s1_def)
  moreover have "db_file (snd (select_function L req' (s1\<lparr>db_cache := Some db', db_file := db'\<rparr>))) = db'"
    using keeps_dbD [OF keeps_db_select_function, of "s1\<lparr>db_cache := Some db', db_file := db'\<rparr>" L req']
    by (simp add: same_db_def)
  ultimately show ?thesis by (simp add: db'_def)
qed

text \<open>
  C10. For a request with \<^verbatim>\<open>func\<close>, \<^verbatim>\<open>group\<close>, \<^verbatim>\<open>arg\<close> and \<^verbatim>\<open>lang\<close>, \<^verbatim>\<open>upsert_db\<close> leaves a store in
  which every row with these four identity fields has been updated with the whole
  request mapping and every other row is unchanged; an updated row holds every
  key/value pair of the request, whatever the key (\<^verbatim>\<open>config\<close> included), and keeps its
  other entries.
\<close>

theorem upsert_db_merges_request:
  assumes "truthy (get_or request ''func'' PNone)" "truthy (get_or request ''group'' PNone)"
    "truthy (get_or request ''arg'' PNone)" "truthy (get_or request ''lang'' PNone)"
    and "distinct (map fst request)"
  shows "db_file (snd (upsert_db L request s)) =
           map (\<lambda>row. if same_key request row then dict_update row request else row) (current_db s)
         \<and> (\<forall>row k v. (k, v) \<in> set request \<longrightarrow> map_of (dict_update row request) k = Some v)
         \<and> (\<forall>row k. k \<notin> fst ` set request \<longrightarrow> map_of (dict_update row request) k = map_of row k)"
proof (intro conjI allI impI)
  show "db_file (snd (upsert_db L request s)) =
           map (\<lambda>row. if same_key request row then dict_update row request else row) (current_db s)"
    by (rule upsert_db_store [OF assms(1-4)])
next
  fix row k v
  assume "(k, v) \<in> set request"
  then show "map_of (dict_update row request) k = Some v"
    by (rule dict_update_receives [OF assms(5)])
next
  fix row k
  assume "k \<notin> fst ` set request"
  then show "map_of (dict_update row request) k = map_of row k"
    by (rule dict_update_frame)
qed


theorem upsert_db_merges_request_witness:
  "db_file (snd (upsert_db sample_lib
       (demo_request [(PStr ''name'', PStr ''Every''), (PStr ''config'', PStr ''demo'')]) demo_db)) =
     [demo_row ''_info'' ''_info'' '''' (PStr ''''),
      demo_row ''Scheduler'' ''_info'' '''' (PStr ''''),
      [(PStr ''func'', PStr ''Main''), (PStr ''group'', PStr ''Scheduler''),
       (PStr ''arg'', PStr ''Interval''), (PStr ''lang'', PStr ''zh-CN''),
       (PStr ''name'', PStr ''Every''), (PStr ''help'', PStr ''Main.Scheduler.Interval.help''),
       (PStr ''type'', PStr ''input''), (PStr ''value'', PInt 10), (PStr ''option'', PDict []),
       (PStr ''config'', PStr ''demo'')]]"
proof -
  let ?r = "demo_request [(PStr ''name'', PStr ''Every''), (PStr ''config'', PStr ''demo'')]"
  have t: "truthy (get_or ?r ''func'' PNone)" "truthy (get_or ?r ''group'' PNone)"
    "truthy (get_or ?r ''arg'' PNone)" "truthy (get_or ?r ''lang'' PNone)"
    by (simp_all add: demo_request_def get_or_def field_def)
  have d: "distinct (map fst ?r)"
    by (simp add: demo_request_def)
  have c: "current_db demo_db = demo_store"
    by (simp add: current_db_def demo_db_def empty_db_def)
  from upsert_db_merges_request [OF t d, of sample_lib demo_db]
  have "db_file (snd (upsert_db sample_lib ?r demo_db)) =
      map (\<lambda>row. if same_key ?r row then dict_update row ?r else row) demo_store"
    by (simp only: c)
  also have "\<dots> = [demo_row ''_info'' ''_info'' '''' (PStr ''''),
      demo_row ''Scheduler'' ''_info'' '''' (PStr ''''),
      [(PStr ''func'', PStr ''Main''), (PStr ''group'', PStr ''Scheduler''),
       (PStr ''arg'', PStr ''Interval''), (PStr ''lang'', PStr ''zh-CN''),
       (PStr ''name'', PStr ''Every''), (PStr ''help'', PStr ''Main.Scheduler.Interval.help''),
       (PStr ''type'', PStr ''input''), (PStr ''value'', PInt 10), (PStr ''option'', PDict []),
       (PStr ''config'', PStr ''demo'')]]"
    by (simp add: demo_store_def demo_row_def demo_request_def same_key_def get_or_def field_def
        dict_update_def dict_set_def)
  finally show ?thesis .
qed

subsection \<open>Code generation\<close>

lemma search_lang_demo:
  "search demo_store (request_to_query [(PStr ''lang'', PStr ''zh-CN'')]) = Inr demo_store"
  by (simp add: search_def request_to_query_def get_or_def field_def matches_def
      demo_store_def demo_row_def)

lemma code_loop_demo:
  "code_loop sample_lib demo_store ([], [], ls) =
     (None, ([''Scheduler.Interval''], [PStr ''Main''],
        ls @ [Text '''', Text ''    # Func `Main`'',
              Decl ''Scheduler.Interval''
                [(PStr ''value'', PInt 10), (PStr ''path'', PStr ''Scheduler.Interval'')]]))"
  by (simp add: demo_store_def demo_row_def code_row_def code_path_def code_decl_def
      parse_value_def field_def format_str_def)

text \<open>
  C6. Code emission is not a function of the store alone: \<^verbatim>\<open>update_code\<close> appends to the
  module-level list \<^verbatim>\<open>CONFIG_IMPORT\<close>, so a second run in the same process, on the same
  store, writes the lines of the first run followed by the same lines again.
\<close>

theorem update_code_twice_differs:
  "code_file (snd (update_code sample_lib demo_db)) =
     CONFIG_IMPORT @
       [Text '''', Text ''    # Func `Main`'',
        Decl ''Scheduler.Interval''
          [(PStr ''value'', PInt 10), (PStr ''path'', PStr ''Scheduler.Interval'')]] \<and>
   current_db (snd (update_code sample_lib demo_db)) = current_db demo_db \<and>
   code_file (snd (update_code sample_lib (snd (update_code sample_lib demo_db)))) =
     CONFIG_IMPORT @
       [Text '''', Text ''    # Func `Main`'',
        Decl ''Scheduler.Interval''
          [(PStr ''value'', PInt 10), (PStr ''path'', PStr ''Scheduler.Interval'')],
        Text '''', Text ''    # Func `Main`'',
        Decl ''Scheduler.Interval''
          [(PStr ''value'', PInt 10), (PStr ''path'', PStr ''Scheduler.Interval'')]] \<and>
   code_file (snd (update_code sample_lib (snd (update_code sample_lib demo_db)))) \<noteq>
     code_file (snd (update_code sample_lib demo_db))"
  by (simp add: update_code_def current_db_def demo_db_def empty_db_def
      search_lang_demo code_loop_demo)

lemma decl_count_append [simp]: "decl_count p (xs @ ys) = decl_count p xs + decl_count p ys"
  by (simp add: decl_count_def)

lemma decl_count_Nil [simp]: "decl_count p [] = 0"
  by (simp add: decl_count_def)

lemma decl_count_Cons [simp]:
  "decl_count p (l # ls) = (if decl_for p l then 1 else 0) + decl_count p ls"
  by (simp add: decl_count_def)

lemma decl_count_CONFIG_IMPORT [simp]: "decl_count p CONFIG_IMPORT = 0"
  by (simp add: CONFIG_IMPORT_def)

lemma code_decl_path: "code_decl L arg p = Inr l \<Longrightarrow> \<exists>d. l = Decl p d"
  by (auto simp: code_decl_def ebind_eq_Inr)

lemma code_row_ok:
  assumes "code_row L arg (vp, vf, ls) = (None, (vp', vf', ls'))"
  shows "\<exists>p. code_path L arg = Inr p \<and>
           set vp' = set vp \<union> (if contains ''_info'' p then {} else {p}) \<and>
           (\<forall>q. decl_count q ls' + (if q \<in> set vp then 1 else 0)
                  = decl_count q ls + (if q \<in> set vp' then 1 else 0))"
proof -
  from assms obtain f where f: "subscript (PDict arg) ''func'' = Inr f" and hf: "hashable f"
    by (auto simp: code_row_def split: sum.splits if_splits)
  define ls1 where "ls1 = (if f \<notin> set vf then ls @ [Text '''', Text (''    # Func `'' @ format_str L f @ ''`'')] else ls)"
  have c1: "\<And>q. decl_count q ls1 = decl_count q ls"
    by (simp add: ls1_def)
  from assms f hf obtain p where p: "code_path L arg = Inr p"
    by (auto simp: code_row_def Let_def split: sum.splits if_splits)
  show ?thesis
  proof (cases "p \<in> set vp \<or> contains ''_info'' p")
    case True
    with assms f hf p have "vp' = vp" "ls' = ls1"
      by (auto simp: code_row_def Let_def ls1_def split: if_splits)
    with True p c1 show ?thesis by auto
  next
    case False
    with assms f hf p obtain l where l: "code_decl L arg p = Inr l"
      and r: "vp' = p # vp" "ls' = ls1 @ [l]"
      by (auto simp: code_row_def Let_def ls1_def split: if_splits sum.splits)
    from code_decl_path [OF l] obtain d where "l = Decl p d" ..
    with r False p c1 show ?thesis by auto
  qed
qed

lemma code_loop_ok:
  assumes "code_loop L rows (vp, vf, ls) = (None, (vp', vf', ls'))"
  shows "set vp' = set vp \<union> {p. \<not> contains ''_info'' p \<and> (\<exists>row \<in> set rows. code_path L row = Inr p)} \<and>
         (\<forall>q. decl_count q ls' + (if q \<in> set vp then 1 else 0)
                = decl_count q ls + (if q \<in> set vp' then 1 else 0))"
  using assms
proof (induction rows arbitrary: vp vf ls)
  case Nil
  then show ?case by simp
next
  case (Cons row rows)
  obtain e vp1 vf1 ls1 where r: "code_row L row (vp, vf, ls) = (e, (vp1, vf1, ls1))"
    by (metis prod_cases3)
  with Cons.prems have e: "e = None" and rest: "code_loop L rows (vp1, vf1, ls1) = (None, (vp', vf', ls'))"
    by (auto split: option.splits)
  from code_row_ok [OF r [unfolded e]] obtain p where p: "code_path L row = Inr p"
    and a1: "set vp1 = set vp \<union> (if contains ''_info'' p then {} else {p})"
    and b1: "\<And>q. decl_count q ls1 + (if q \<in> set vp then 1 else 0)
                  = decl_count q ls + (if q \<in> set vp1 then 1 else 0)"
    by blast
  from Cons.IH [OF rest] have a2: "set vp' = set vp1 \<union> {p. \<not> contains ''_info'' p \<and> (\<exists>row \<in> set rows. code_path L row = Inr p)}"
    and b2: "\<And>q. decl_count q ls' + (if q \<in> set vp1 then 1 else 0)
                = decl_count q ls1 + (if q \<in> set vp' then 1 else 0)"
    by blast+
  have "set vp' = set vp \<union> {q. \<not> contains ''_info'' q \<and> (\<exists>r \<in> set (row # rows). code_path L r = Inr q)}"
    using a1 a2 p by auto
  moreover have "\<And>q. decl_count q ls' + (if q \<in> set vp then 1 else 0)
                = decl_count q ls + (if q \<in> set vp' then 1 else 0)"
    using b1 b2 by (smt (verit) add.commute add_left_cancel add.assoc)
  ultimately show ?case by blast
qed

lemma search_canonical:
  "search db (request_to_query [(PStr ''lang'', PStr ''zh-CN'')])
     = Inr (filter (matches [(''lang'', PStr ''zh-CN'')]) db)"
  by (simp add: search_def request_to_query_def get_or_def field_def)

lemma update_code_unfold:
  "update_code L s =
     (case code_loop L (canonical_rows s) ([], [], config_import s) of
        (Some e, (vp, vf, lines)) \<Rightarrow>
          (Inl e, s\<lparr>db_cache := Some (current_db s), config_import := lines\<rparr>)
      | (None, (vp, vf, lines)) \<Rightarrow>
          (Inr (), s\<lparr>db_cache := Some (current_db s), config_import := lines, code_file := lines\<rparr>))"
  by (simp add: update_code_def search_canonical canonical_rows_def split: prod.splits option.splits)

text \<open>
  C7, as amended. A run of \<^verbatim>\<open>update_code\<close> that starts from the original \<^verbatim>\<open>CONFIG_IMPORT\<close>
  and does not raise writes, for every path \<^verbatim>\<open>group.arg\<close> that does not contain the text
  \<^verbatim>\<open>_info\<close>, exactly one declaration line if a row of the canonical language has this
  path, and none otherwise. The function of a row is not part of its path.
\<close>

theorem update_code_one_line_per_path:
  assumes "fst (update_code L s) = Inr ()" and "config_import s = CONFIG_IMPORT"
  shows "\<forall>p. \<not> contains ''_info'' p \<longrightarrow>
           decl_count p (code_file (snd (update_code L s))) =
             (if \<exists>row \<in> set (canonical_rows s). code_path L row = Inr p then 1 else 0)"
proof (intro allI impI)
  fix p
  assume np: "\<not> contains ''_info'' p"
  obtain e vp vf ls where r: "code_loop L (canonical_rows s) ([], [], CONFIG_IMPORT) = (e, (vp, vf, ls))"
    by (metis prod_cases3)
  with assms have e: "e = None" and out: "code_file (snd (update_code L s)) = ls"
    by (auto simp: update_code_unfold split: option.splits)
  from code_loop_ok [OF r [unfolded e]]
  have a: "set vp = {p. \<not> contains ''_info'' p \<and> (\<exists>row \<in> set (canonical_rows s). code_path L row = Inr p)}"
    and b: "decl_count p ls + (if p \<in> set [] then 1 else 0)
            = decl_count p CONFIG_IMPORT + (if p \<in> set vp then 1 else 0)"
    by auto
  from a b np show "decl_count p (code_file (snd (update_code L s))) =
             (if \<exists>row \<in> set (canonical_rows s). code_path L row = Inr p then 1 else 0)"
    by (simp add: out)
qed

lemma code_loop_tasks:
  "code_loop sample_lib [task_row ''Task1'' (PBool True), task_row ''Task2'' (PBool False)]
       ([], [], ls) =
     (None, ([''Scheduler.Enable''], [PStr ''Task2'', PStr ''Task1''],
        ls @ [Text '''', Text ''    # Func `Task1`'',
              Decl ''Scheduler.Enable''
                [(PStr ''value'', PBool True), (PStr ''path'', PStr ''Scheduler.Enable'')],
              Text '''', Text ''    # Func `Task2`'']))"
  by (simp add: task_row_def code_row_def code_path_def code_decl_def
      parse_value_def field_def format_str_def)

lemma canonical_rows_tasks:
  "canonical_rows tasks_db = [task_row ''Task1'' (PBool True), task_row ''Task2'' (PBool False)]"
  by (simp add: canonical_rows_def current_db_def tasks_db_def empty_db_def matches_def
      task_row_def field_def)

theorem update_code_one_line_per_path_witness:
  "decl_count ''Scheduler.Enable'' (code_file (snd (update_code sample_lib tasks_db))) = 1"
proof -
  have a: "fst (update_code sample_lib tasks_db) = Inr ()"
    by (simp add: update_code_unfold canonical_rows_tasks code_loop_tasks del: code_loop.simps)
  have b: "config_import tasks_db = CONFIG_IMPORT"
    by (simp add: tasks_db_def empty_db_def)
  have c: "\<not> contains ''_info'' ''Scheduler.Enable''"
    by simp
  have d: "\<exists>row \<in> set (canonical_rows tasks_db). code_path sample_lib row = Inr ''Scheduler.Enable''"
    by (simp add: canonical_rows_tasks task_row_def code_path_def field_def format_str_def)
  from update_code_one_line_per_path [OF a b] c d show ?thesis
    by simp
qed

text \<open>
  The claim as stated fails where two functions share a group: the store below has the
  two non-info paths \<^verbatim>\<open>Task1.Scheduler.Enable\<close> and \<^verbatim>\<open>Task2.Scheduler.Enable\<close>, with different
  defaults, and the generated code has one declaration line, for \<^verbatim>\<open>Scheduler.Enable\<close> with
  the default of \<^verbatim>\<open>Task1\<close>.
\<close>

theorem update_code_shared_group_counterexample:
  "canonical_rows tasks_db = [task_row ''Task1'' (PBool True), task_row ''Task2'' (PBool False)] \<and>
   data_to_path (task_row ''Task1'' (PBool True)) = Inr ''Task1.Scheduler.Enable'' \<and>
   data_to_path (task_row ''Task2'' (PBool False)) = Inr ''Task2.Scheduler.Enable'' \<and>
   code_file (snd (update_code sample_lib tasks_db)) =
     CONFIG_IMPORT @
       [Text '''', Text ''    # Func `Task1`'',
        Decl ''Scheduler.Enable''
          [(PStr ''value'', PBool True), (PStr ''path'', PStr ''Scheduler.Enable'')],
        Text '''', Text ''    # Func `Task2`'']"
proof -
  have "config_import tasks_db = CONFIG_IMPORT"
    by (simp add: tasks_db_def empty_db_def)
  then have "code_file (snd (update_code sample_lib tasks_db)) =
     CONFIG_IMPORT @
       [Text '''', Text ''    # Func `Task1`'',
        Decl ''Scheduler.Enable''
          [(PStr ''value'', PBool True), (PStr ''path'', PStr ''Scheduler.Enable'')],
        Text '''', Text ''    # Func `Task2`'']"
    by (simp add: update_code_unfold canonical_rows_tasks code_loop_tasks del: code_loop.simps)
  moreover have "data_to_path (task_row ''Task1'' (PBool True)) = Inr ''Task1.Scheduler.Enable''"
    "data_to_path (task_row ''Task2'' (PBool False)) = Inr ''Task2.Scheduler.Enable''"
    by (simp_all add: task_row_def data_to_path_def get_or_def field_def)
  ultimately show ?thesis
    using canonical_rows_tasks by simp
qed

subsection \<open>Path addressing\<close>

lemma field_dict_set_same [simp]: "field (dict_set m (PStr k) v) k = Some v"
  by (simp add: field_def map_of_dict_set)

lemma field_dict_set_other [simp]: "k' \<noteq> k \<Longrightarrow> field (dict_set m (PStr k) v) k' = field m k'"
  by (simp add: field_def map_of_dict_set)

lemma deep_get_set_keys [simp]: "deep_get_keys (deep_set_keys d ks v) ks dflt = v"
  by (induction ks arbitrary: d) (simp_all add: Let_def)

lemma deep_get_set [simp]: "deep_get (deep_set d p v) p dflt = v"
  by (simp add: deep_get_def deep_set_def)

lemma split_dot_not_Nil [simp]: "split_dot s \<noteq> []"
  by (induction s) (auto split: list.splits)

lemma deep_set_is_dict: "\<exists>m. deep_set d p v = PDict m"
  by (cases "split_dot p") (simp_all add: deep_set_def Let_def)

lemma deep_get_empty [simp]: "deep_get (PDict []) p dflt = dflt"
  by (cases "split_dot p") (simp_all add: deep_get_def field_def)

subsection \<open>Selection\<close>

lemma select_db_unfold:
  "select_db request s =
     (if truthy (get_or request ''func'' PNone) \<or> truthy (get_or request ''group'' PNone)
           \<or> truthy (get_or request ''arg'' PNone)
      then (ebind (search (current_db s) (request_to_query request))
              (\<lambda>result. efold (\<lambda>arg response.
                   ebind (data_to_path arg) (\<lambda>path. Inr (deep_set response path (PDict arg))))
                 result (PDict [])),
            s\<lparr>db_cache := Some (current_db s)\<rparr>)
      else (Inl AssertionError, s))"
  by (simp add: select_db_def lift_def ebind_def split: sum.splits)

lemma efold_same_path:
  assumes "\<forall>row \<in> set rows. data_to_path row = Inr p"
  shows "\<exists>r. efold (\<lambda>arg response.
                   ebind (data_to_path arg) (\<lambda>path. Inr (deep_set response path (PDict arg))))
                 rows r0 = Inr r \<and>
             (if rows = [] then r = r0 else \<forall>dflt. deep_get r p dflt = PDict (last rows))"
  using assms
proof (induction rows arbitrary: r0)
  case Nil
  then show ?case by simp
next
  case (Cons row rows)
  from Cons.prems have p: "data_to_path row = Inr p" and rest: "\<forall>row \<in> set rows. data_to_path row = Inr p"
    by simp_all
  from Cons.IH [OF rest, of "deep_set r0 p (PDict row)"] show ?case
    by (auto simp: p)
qed

lemma data_to_path_same_key:
  assumes "same_key request row" and "truthy (get_or request ''func'' PNone)"
    "truthy (get_or request ''group'' PNone)" "truthy (get_or request ''arg'' PNone)"
  shows "data_to_path row = data_to_path request"
proof -
  have "get_or row a (PStr '''') = get_or request a (PStr '''')"
    if "field row a = Some (get_or request a PNone)" "truthy (get_or request a PNone)" for a
    using that by (cases "field request a") (simp_all add: get_or_def)
  with assms show ?thesis
    by (simp add: data_to_path_def same_key_def)
qed

lemma matches_same_key:
  assumes "truthy (get_or request ''func'' PNone)" "truthy (get_or request ''group'' PNone)"
    "truthy (get_or request ''arg'' PNone)" "truthy (get_or request ''lang'' PNone)"
  shows "search db (request_to_query request) = Inr (filter (same_key request) db)"
proof -
  have "matches [(''func'', get_or request ''func'' PNone), (''group'', get_or request ''group'' PNone),
           (''arg'', get_or request ''arg'' PNone), (''lang'', get_or request ''lang'' PNone)]
      = same_key request"
    by (simp add: fun_eq_iff matches_def same_key_def)
  then show ?thesis
    by (simp add: search_def request_to_query_full [OF assms])
qed

text \<open>The row that a fully keyed request selects: the last one with its identity.\<close>

lemma select_db_keyed:
  assumes t: "truthy (get_or request ''func'' PNone)" "truthy (get_or request ''group'' PNone)"
    "truthy (get_or request ''arg'' PNone)" "truthy (get_or request ''lang'' PNone)"
    and p: "data_to_path request = Inr p"
  shows "\<exists>r. select_db request s = (Inr r, s\<lparr>db_cache := Some (current_db s)\<rparr>) \<and>
           (if filter (same_key request) (current_db s) = [] then r = PDict []
            else \<forall>dflt. deep_get r p dflt = PDict (last (filter (same_key request) (current_db s))))"
proof -
  have "\<forall>row \<in> set (filter (same_key request) (current_db s)). data_to_path row = Inr p"
    using data_to_path_same_key [OF _ t(1-3)] p by simp
  from efold_same_path [OF this, of "PDict []"] show ?thesis
    using t by (simp add: select_db_unfold matches_same_key [OF t])
qed

subsection \<open>Stability\<close>

lemma stableD: "stable P m \<Longrightarrow> P s \<Longrightarrow> P (snd (m s))"
  by (simp add: stable_def)

lemma stable_sbind:
  assumes "stable P m" and "\<And>x. stable P (f x)"
  shows "stable P (sbind m f)"
  unfolding stable_def
proof (intro allI impI)
  fix s assume s: "P s"
  obtain r s' where ms: "m s = (r, s')" by (cases "m s")
  have s': "P s'" using stableD [OF assms(1) s] ms by simp
  show "P (snd (sbind m f s))"
  proof (cases r)
    case (Inl e)
    then show ?thesis using ms s' by (simp add: sbind_def)
  next
    case (Inr x)
    then show ?thesis using ms stableD [OF assms(2) s', of x] by (simp add: sbind_def)
  qed
qed

lemma stable_lift [simp]: "stable P (lift r)"
  by (simp add: stable_def lift_def)

lemma stable_check [simp]: "stable P (check b)"
  by (simp add: stable_def check_def)

lemma stable_cfg_get_db [simp]: "stable (cfg_is c f) get_db"
  by (simp add: stable_def get_db_result cfg_is_def)

lemma stable_cfg_select_db [simp]: "stable (cfg_is c f) (select_db request)"
  unfolding select_db_def
  by (intro stable_sbind stable_lift stable_check stable_cfg_get_db)

lemma config_cached:
  "hashable n \<Longrightarrow> cfg_cache s n = Some d \<Longrightarrow> config L n s = (Inr d, s)"
  by (simp add: config_def)

lemma stable_cfg_config:
  assumes "c n \<noteq> None"
  shows "stable (cfg_is c f) (config L n)"
  using assms by (auto simp: stable_def cfg_is_def config_def)

lemma stable_cfg_select_config:
  assumes "c (get_or request ''config'' PNone) \<noteq> None"
  shows "stable (cfg_is c f) (select_config L request)"
  unfolding select_config_def Let_def
  by (intro stable_sbind stable_lift stable_check stable_cfg_select_db
      stable_cfg_config [of c "get_or request ''config'' PNone", OF assms])

lemma stable_cfg_select_function:
  assumes "c (get_or request ''config'' PNone) \<noteq> None"
  shows "stable (cfg_is c f) (select_function L request)"
  unfolding select_function_def Let_def
  by (intro stable_sbind stable_lift stable_check stable_cfg_select_db stable_cfg_select_config)
    (simp add: get_or_def field_def assms [unfolded get_or_def field_def])

lemma upsert_config_success:
  assumes "upsert_config L request s = (Inr resp, s')"
  obtains path r s1 v1 v2 d s2 s3 s4 d' s5 where
    "truthy (get_or request ''func'' PNone)" "truthy (get_or request ''group'' PNone)"
    "truthy (get_or request ''arg'' PNone)" "truthy (get_or request ''lang'' PNone)"
    "get_or request ''value'' PNone \<noteq> PNone" "truthy (get_or request ''config'' PNone)"
    "data_to_path request = Inr path"
    "select_db request s = (Inr r, s1)"
    "parse_value L (get_or request ''value'' PNone) (deep_get r path PNone) = Inr v1"
    "(if v1 = PNone then subscript (deep_get r path PNone) ''value'' else Inr v1) = Inr v2"
    "config L (get_or request ''config'' PNone) s1 = (Inr d, s2)"
    "set_cached (get_or request ''config'' PNone) path v2 d s2 = (Inr (), s3)"
    "select_function L [(PStr ''func'', get_or request ''func'' PNone),
        (PStr ''lang'', get_or request ''lang'' PNone),
        (PStr ''config'', get_or request ''config'' PNone)] s3 = (Inr resp, s4)"
    "config L (get_or request ''config'' PNone) s4 = (Inr d', s5)"
    "s' = s5\<lparr>config_files := (config_files s5)(format_str L (get_or request ''config'' PNone) \<mapsto> d')\<rparr>"
  using assms unfolding upsert_config_def Let_def sbind_def lift_def check_def write_config_def
  by (auto split: prod.splits sum.splits if_splits)

subsection \<open>Instance configurations are mappings\<close>

lemma is_dict_deep_set [simp]: "is_dict (deep_set d p v)"
  using deep_set_is_dict [of d p v] by auto

lemma efold_invariant:
  assumes "efold f xs s = Inr s'" and "P s" and "\<And>x s s'. f x s = Inr s' \<Longrightarrow> P s \<Longrightarrow> P s'"
  shows "P s'"
  using assms(1,2)
proof (induction xs arbitrary: s)
  case Nil
  then show ?case by simp
next
  case (Cons x xs)
  from Cons.prems(1) obtain s1 where 1: "f x s = Inr s1" and 2: "efold f xs s1 = Inr s'"
    by (auto simp: ebind_eq_Inr)
  from Cons.IH [OF 2 assms(3) [OF 1 Cons.prems(2)]] show ?case .
qed

lemma project_row_is_dict:
  assumes "project_row L old arg new = Inr new'" and "is_dict new"
  shows "is_dict new'"
  using assms by (auto simp: project_row_def ebind_eq_Inr split: if_splits)

lemma is_dict_check_config: "is_dict d \<Longrightarrow> is_dict (check_config L d t)"
  by (simp add: check_config_def deep_default_def)

lemma sbind_write_config [simp]:
  "sbind (write_config L n d) f s = f () (s\<lparr>config_files := (config_files s)(format_str L n \<mapsto> d)\<rparr>)"
  by (simp add: sbind_def write_config_def)

lemma update_config_unfold:
  "update_config L n s =
     (case efold (project_row L (read_config L n s)) (canonical_rows s) (PDict []) of
        Inl e \<Rightarrow> (Inl e, s\<lparr>db_cache := Some (current_db s)\<rparr>)
      | Inr new \<Rightarrow>
          (Inr (check_config L new (n = PStr ''template'')),
           s\<lparr>db_cache := Some (current_db s),
             config_files := (config_files s)
               (format_str L n \<mapsto> check_config L new (n = PStr ''template''))\<rparr>))"
  by (simp add: update_config_def Let_def search_def canonical_rows_def lift_def
      split: sum.splits)

lemma update_config_is_dict:
  assumes "update_config L n s = (Inr d, s')"
  shows "is_dict d"
proof -
  from assms obtain new where e: "efold (project_row L (read_config L n s)) (canonical_rows s) (PDict []) = Inr new"
    and d: "d = check_config L new (n = PStr ''template'')"
    by (auto simp: update_config_unfold split: sum.splits)
  have "is_dict new"
    by (rule efold_invariant [OF e, of is_dict]) (simp_all add: project_row_is_dict)
  then show ?thesis by (simp add: d is_dict_check_config)
qed

lemma config_result:
  assumes "config L n s = (Inr d, s')"
  shows "hashable n" and "cfg_cache s' n = Some d" and "configs_are_mappings s \<Longrightarrow> is_dict d"
proof -
  show h: "hashable n" using assms by (auto simp: config_def split: if_splits)
  show "cfg_cache s' n = Some d"
    using assms h by (auto simp: config_def Let_def sbind_def split: option.splits if_splits prod.splits sum.splits)
  show "is_dict d" if m: "configs_are_mappings s"
  proof (cases "cfg_cache s n")
    case (Some d0)
    with assms h m show ?thesis by (auto simp: config_def configs_are_mappings_def)
  next
    case None
    show ?thesis
    proof (cases "n \<in> cfg_updated s")
      case True
      with assms h None m show ?thesis
        by (auto simp: config_def Let_def read_config_def configs_are_mappings_def split: option.splits)
    next
      case False
      with assms h None obtain s1 where "update_config L n s = (Inr d, s1)"
        by (auto simp: config_def sbind_def split: prod.splits sum.splits)
      then show ?thesis by (rule update_config_is_dict)
    qed
  qed
qed

lemma parse_value_None: "parse_value L v PNone = Inl TypeError"
  by (simp add: parse_value_def)

lemma parse_value_empty:
  assumes "parse_value L (PStr '''') (PDict row) = Inr v1"
    and "(if v1 = PNone then subscript (PDict row) ''value'' else Inr v1) = Inr v2"
  shows "field row ''value'' = Some v2"
proof -
  from assms(1) obtain opt where o: "field row ''option'' = Some opt"
    by (auto simp: parse_value_def ebind_eq_Inr split: option.splits)
  show ?thesis
  proof (cases "truthy opt \<and> py_in (PStr '''') opt = Inr False")
    case True
    with assms(1) o have "subscript (PDict row) ''value'' = Inr v1"
      by (simp add: parse_value_def)
    with assms(2) show ?thesis by (auto split: option.splits if_splits)
  next
    case False
    with assms(1) o have "v1 = PNone"
      by (auto simp: parse_value_def parse_str_def ebind_eq_Inr split: if_splits)
    with assms(2) show ?thesis by (auto split: option.splits)
  qed
qed

text \<open>
  C9, as amended. When \<^verbatim>\<open>upsert_config\<close> returns for a valid request, a row of the store
  has the identity of the request, the instance configuration (in the cache and in its
  file) holds a value at the requested path, and that value is \<^verbatim>\<open>None\<close> only if the row's
  default is \<^verbatim>\<open>None\<close>; for the raw value \<^verbatim>\<open>""\<close> it is the row's default.
\<close>

theorem upsert_config_stores_default_for_null:
  assumes "fst (upsert_config L request s) = Inr resp" and "configs_are_mappings s"
  shows "\<exists>row path v d.
           row \<in> set (current_db s) \<and> same_key request row \<and>
           data_to_path request = Inr path \<and>
           cfg_cache (snd (upsert_config L request s)) (get_or request ''config'' PNone) = Some d \<and>
           config_files (snd (upsert_config L request s))
             (format_str L (get_or request ''config'' PNone)) = Some d \<and>
           (\<forall>dflt. deep_get d path dflt = v) \<and>
           (v = PNone \<longrightarrow> field row ''value'' = Some PNone) \<and>
           (get_or request ''value'' PNone = PStr '''' \<longrightarrow> field row ''value'' = Some v)"
proof -
  let ?cfg = "get_or request ''config'' PNone"
  let ?v0 = "get_or request ''value'' PNone"
  obtain s' where run: "upsert_config L request s = (Inr resp, s')"
    using assms(1) by (cases "upsert_config L request s") simp
  show ?thesis
  proof (rule upsert_config_success [OF run])
  fix path r s1 v1 v2 d s2 s3 s4 d' s5
  assume t: "truthy (get_or request ''func'' PNone)" "truthy (get_or request ''group'' PNone)"
       "truthy (get_or request ''arg'' PNone)" "truthy (get_or request ''lang'' PNone)"
    and "?v0 \<noteq> PNone" and "truthy ?cfg"
    and p: "data_to_path request = Inr path"
    and sel: "select_db request s = (Inr r, s1)"
    and pv: "parse_value L ?v0 (deep_get r path PNone) = Inr v1"
    and v2: "(if v1 = PNone then subscript (deep_get r path PNone) ''value'' else Inr v1) = Inr v2"
    and cf: "config L ?cfg s1 = (Inr d, s2)"
    and sc: "set_cached ?cfg path v2 d s2 = (Inr (), s3)"
    and sf: "select_function L [(PStr ''func'', get_or request ''func'' PNone),
        (PStr ''lang'', get_or request ''lang'' PNone), (PStr ''config'', ?cfg)] s3 = (Inr resp, s4)"
    and cf2: "config L ?cfg s4 = (Inr d', s5)"
    and s': "s' = s5\<lparr>config_files := (config_files s5)(format_str L ?cfg \<mapsto> d')\<rparr>"
  let ?rows = "filter (same_key request) (current_db s)"
  from select_db_keyed [OF t p, of s] sel
  have s1: "s1 = s\<lparr>db_cache := Some (current_db s)\<rparr>"
    and r: "if ?rows = [] then r = PDict [] else \<forall>dflt. deep_get r path dflt = PDict (last ?rows)"
    by auto
  have ne: "?rows \<noteq> []"
  proof
    assume "?rows = []"
    with r have "deep_get r path PNone = PNone" by simp
    with pv show False by (simp add: parse_value_None)
  qed
  define row where "row = last ?rows"
  have "row \<in> set ?rows" unfolding row_def by (rule last_in_set [OF ne])
  then have row: "row \<in> set (current_db s)" "same_key request row" by simp_all
  have dflt: "deep_get r path PNone = PDict row" using r ne by (simp add: row_def)
  have m1: "configs_are_mappings s1"
    using assms(2) by (simp add: s1 configs_are_mappings_def)
  note c1 = config_result [OF cf]
  from c1(3) [OF m1] obtain m where d: "d = PDict m" by (cases d) simp_all
  have s3: "s3 = s2\<lparr>cfg_cache := (cfg_cache s2)(?cfg \<mapsto> deep_set d path v2)\<rparr>"
    using sc by (simp add: set_cached_def d)
  let ?req = "[(PStr ''func'', get_or request ''func'' PNone),
        (PStr ''lang'', get_or request ''lang'' PNone), (PStr ''config'', ?cfg)]"
  have st: "stable (cfg_is (cfg_cache s3) (config_files s3)) (select_function L ?req)"
    by (rule stable_cfg_select_function) (simp add: get_or_def field_def s3)
  have "cfg_is (cfg_cache s3) (config_files s3) (snd (select_function L ?req s3))"
    by (rule stableD [OF st]) (simp add: cfg_is_def)
  then have "cfg_is (cfg_cache s3) (config_files s3) s4"
    by (simp add: sf)
  then have c4: "cfg_cache s4 ?cfg = Some (deep_set d path v2)"
    by (simp add: cfg_is_def s3)
  from config_cached [OF c1(1) c4, of L] cf2 have d': "d' = deep_set d path v2" and s5: "s5 = s4"
    by simp_all
  have "cfg_cache s' ?cfg = Some d'" "config_files s' (format_str L ?cfg) = Some d'"
    by (simp_all add: s' s5 c4 d')
  moreover have "\<forall>dflt. deep_get d' path dflt = v2" by (simp add: d')
  moreover have "v2 = PNone \<longrightarrow> field row ''value'' = Some PNone"
    using v2 by (auto simp: dflt split: if_splits option.splits)
  moreover have "?v0 = PStr '''' \<longrightarrow> field row ''value'' = Some v2"
    using parse_value_empty [of L row v1 v2] pv [unfolded dflt] v2 [unfolded dflt] by auto
  ultimately show ?thesis
    using row p by (auto simp: run)
  qed
qed

lemma configs_are_mappings_empty [simp]: "configs_are_mappings (empty_db\<lparr>db_file := rows\<rparr>)"
  by (simp add: configs_are_mappings_def empty_db_def)

theorem upsert_config_stores_default_for_null_witness:
  "\<exists>row path v d.
     row \<in> set (current_db demo_db) \<and>
     same_key (demo_request [(PStr ''value'', PStr ''20''), (PStr ''config'', PStr ''demo'')]) row \<and>
     data_to_path (demo_request [(PStr ''value'', PStr ''20''), (PStr ''config'', PStr ''demo'')])
       = Inr path \<and>
     cfg_cache (snd (upsert_config sample_lib
         (demo_request [(PStr ''value'', PStr ''20''), (PStr ''config'', PStr ''demo'')]) demo_db))
       (get_or (demo_request [(PStr ''value'', PStr ''20''), (PStr ''config'', PStr ''demo'')])
          ''config'' PNone) = Some d \<and>
     config_files (snd (upsert_config sample_lib
         (demo_request [(PStr ''value'', PStr ''20''), (PStr ''config'', PStr ''demo'')]) demo_db))
       (format_str sample_lib
          (get_or (demo_request [(PStr ''value'', PStr ''20''), (PStr ''config'', PStr ''demo'')])
             ''config'' PNone)) = Some d \<and>
     (\<forall>dflt. deep_get d path dflt = v) \<and>
     (v = PNone \<longrightarrow> field row ''value'' = Some PNone) \<and>
     (get_or (demo_request [(PStr ''value'', PStr ''20''), (PStr ''config'', PStr ''demo'')])
        ''value'' PNone = PStr '''' \<longrightarrow> field row ''value'' = Some v)"
proof -
  let ?r = "demo_request [(PStr ''value'', PStr ''20''), (PStr ''config'', PStr ''demo'')]"
  have "\<not> isl (fst (upsert_config sample_lib ?r demo_db))"
    by code_simp
  then obtain resp where a: "fst (upsert_config sample_lib ?r demo_db) = Inr resp"
    by (cases "fst (upsert_config sample_lib ?r demo_db)") simp_all
  have b: "configs_are_mappings demo_db"
    by (simp add: demo_db_def)
  from upsert_config_stores_default_for_null [OF a b] show ?thesis .
qed

text \<open>
  The claim as stated fails for a row whose default is \<^verbatim>\<open>None\<close>: the valid request with the
  raw value \<^verbatim>\<open>""\<close> returns normally and leaves \<^verbatim>\<open>None\<close> at \<^verbatim>\<open>Main.Scheduler.Note\<close>, in the
  cache and in the file.
\<close>

theorem upsert_config_null_counterexample:
  "get_or (note_request (PStr '''')) ''value'' PNone \<noteq> PNone \<and>
   \<not> isl (fst (upsert_config sample_lib (note_request (PStr '''')) note_db)) \<and>
   cfg_cache (snd (upsert_config sample_lib (note_request (PStr '''')) note_db)) (PStr ''demo'') =
     Some (PDict
       [(PStr ''Main'', PDict [(PStr ''Scheduler'', PDict [(PStr ''Note'', PNone)])]),
        (PStr ''Alas'',
         PDict [(PStr ''DropRecord'', PDict [(PStr ''AzurStatsID'', PStr ''id0'')])])]) \<and>
   config_files (snd (upsert_config sample_lib (note_request (PStr '''')) note_db)) ''demo'' =
     Some (PDict
       [(PStr ''Main'', PDict [(PStr ''Scheduler'', PDict [(PStr ''Note'', PNone)])]),
        (PStr ''Alas'',
         PDict [(PStr ''DropRecord'', PDict [(PStr ''AzurStatsID'', PStr ''id0'')])])])"
  by code_simp

subsection \<open>Paths of plain names\<close>

lemma split_dot_plain: "plain w \<Longrightarrow> split_dot w = [w]"
  by (induction w) (auto simp: plain_def)

lemma split_dot_append: "plain w \<Longrightarrow> split_dot (w @ CHR ''.'' # rest) = w # split_dot rest"
  by (induction w) (auto simp: plain_def)

lemma plain_value [simp]: "plain ''value''"
  by (simp add: plain_def)


lemma deep_get_keys_None [simp]: "ks \<noteq> [] \<Longrightarrow> deep_get_keys PNone ks dflt = dflt"
  by (cases ks) simp_all

lemma deep_get_keys_Cons:
  "deep_get_keys d (k # ks) dflt =
     (case field (case d of PDict m \<Rightarrow> m | _ \<Rightarrow> []) k of
        Some c \<Rightarrow> deep_get_keys c ks dflt | None \<Rightarrow> dflt)"
  by (cases d) (simp_all add: field_def)

lemma deep_set_keys_Cons:
  "deep_set_keys d (k # ks) v =
     PDict (dict_set (case d of PDict m \<Rightarrow> m | _ \<Rightarrow> []) (PStr k)
       (deep_set_keys (get_or (case d of PDict m \<Rightarrow> m | _ \<Rightarrow> []) k PNone) ks v))"
  by (simp add: Let_def)

lemma deep_get_set_other:
  assumes "length ks = length ks'" and "ks \<noteq> ks'"
  shows "deep_get_keys (deep_set_keys d ks v) ks' dflt = deep_get_keys d ks' dflt"
  using assms
proof (induction ks arbitrary: ks' d)
  case Nil
  then show ?case by simp
next
  case (Cons k r)
  then obtain k' r' where ks': "ks' = k' # r'" and len: "length r = length r'"
    by (cases ks') auto
  define m where "m = (case d of PDict m \<Rightarrow> m | _ \<Rightarrow> [])"
  have set: "deep_set_keys d (k # r) v = PDict (dict_set m (PStr k) (deep_set_keys (get_or m k PNone) r v))"
    unfolding m_def by (rule deep_set_keys_Cons)
  have orig: "deep_get_keys d (k' # r') dflt =
      (case field m k' of Some c \<Rightarrow> deep_get_keys c r' dflt | None \<Rightarrow> dflt)"
    unfolding m_def by (rule deep_get_keys_Cons)
  have new: "deep_get_keys (PDict (dict_set m (PStr k) x)) (k' # r') dflt =
      (case field (dict_set m (PStr k) x) k' of Some c \<Rightarrow> deep_get_keys c r' dflt | None \<Rightarrow> dflt)" for x
    by simp
  show ?case
  proof (cases "k' = k")
    case False
    then show ?thesis by (simp only: ks' set orig new field_dict_set_other [OF False])
  next
    case True
    with Cons.prems ks' have ne: "r \<noteq> r'" by simp
    then have r': "r' \<noteq> []" using len by auto
    have ih: "deep_get_keys (deep_set_keys (get_or m k PNone) r v) r' dflt
        = deep_get_keys (get_or m k PNone) r' dflt"
      by (rule Cons.IH [OF len ne])
    have "deep_get_keys (deep_set_keys d (k # r) v) (k # r') dflt
        = deep_get_keys (get_or m k PNone) r' dflt"
      by (simp add: set ih del: deep_set_keys.simps)
    also have "\<dots> = deep_get_keys d (k # r') dflt"
      using r' by (simp only: orig [unfolded True]) (simp add: get_or_def split: option.splits)
    finally show ?thesis by (simp only: ks' True)
  qed
qed

subsection \<open>The overlay of live values\<close>













lemma function_request_gets [simp]:
  "get_or (function_request request) ''func'' PNone = get_or request ''func'' PNone"
  "get_or (function_request request) ''group'' PNone = PNone"
  "get_or (function_request request) ''arg'' PNone = PNone"
  "get_or (function_request request) ''config'' PNone = get_or request ''config'' PNone"
  by (simp_all add: function_request_def get_or_def field_def)




lemma plain_row_path:
  assumes "plain_row row"
  shows "\<exists>f g a. data_to_path row = Inr (f @ ''.'' @ g @ ''.'' @ a) \<and>
           split_dot (f @ ''.'' @ g @ ''.'' @ a) = [f, g, a]"
proof -
  from assms obtain f g a where "field row ''func'' = Some (PStr f)" "field row ''group'' = Some (PStr g)"
    "field row ''arg'' = Some (PStr a)" and p: "plain f" "plain g" "plain a"
    by (auto simp: plain_row_def)
  then have "data_to_path row = Inr (f @ ''.'' @ g @ ''.'' @ a)"
    by (simp add: data_to_path_def get_or_def)
  moreover have "split_dot (f @ ''.'' @ g @ ''.'' @ a) = [f, g, a]"
    using p by (simp add: split_dot_append split_dot_plain)
  ultimately show ?thesis by blast
qed

lemma plain_row_length:
  assumes "plain_row row" and "data_to_path row = Inr p"
  shows "length (split_dot p) = 3"
  using plain_row_path [OF assms(1)] assms(2) by auto

lemma project_row_info:
  assumes "is_info row" and "project_row L old row new = Inr new'"
  shows "new' = new"
  using assms by (auto simp: project_row_def is_info_def ebind_eq_Inr split: option.splits if_splits)

lemma project_row_argument:
  assumes "\<not> is_info row" and "project_row L (PDict []) row new = Inr new'"
  obtains p dv v where "data_to_path row = Inr p" "field row ''value'' = Some dv"
    "parse_value L dv (PDict row) = Inr v" "new' = deep_set new p v"
  using assms
  by (auto simp: project_row_def is_info_def ebind_eq_Inr split: option.splits if_splits)

text \<open>The typed default of a row.\<close>

lemma project_rows:
  assumes "efold (project_row L (PDict [])) rows new0 = Inr new"
    and "\<forall>r \<in> set rows. \<not> is_info r \<longrightarrow> plain_row r"
    and "\<forall>r1 \<in> set rows. \<forall>r2 \<in> set rows. \<not> is_info r1 \<and> \<not> is_info r2 \<and>
           data_to_path r1 = data_to_path r2 \<longrightarrow> r1 = r2"
  shows "(\<forall>row \<in> set rows. \<not> is_info row \<longrightarrow>
            (\<exists>p dv v. data_to_path row = Inr p \<and> field row ''value'' = Some dv \<and>
               parse_value L dv (PDict row) = Inr v \<and>
               (\<forall>dflt. deep_get new p dflt = v))) \<and>
         (\<forall>ks. length ks = 3 \<and>
                (\<forall>row \<in> set rows. \<not> is_info row \<longrightarrow> data_to_path row \<noteq> Inr (join_dot ks)) \<longrightarrow>
            (\<forall>dflt. deep_get_keys new ks dflt = deep_get_keys new0 ks dflt))"
  using assms
proof (induction rows arbitrary: new0)
  case Nil
  then show ?case by simp
next
  case (Cons r0 rows)
  from Cons.prems(1) obtain new1 where step: "project_row L (PDict []) r0 new0 = Inr new1"
    and run: "efold (project_row L (PDict [])) rows new1 = Inr new"
    by (auto simp: ebind_eq_Inr)
  have pl: "\<forall>r \<in> set rows. \<not> is_info r \<longrightarrow> plain_row r"
    using Cons.prems(2) by simp
  have un: "\<forall>r1 \<in> set rows. \<forall>r2 \<in> set rows. \<not> is_info r1 \<and> \<not> is_info r2 \<and>
           data_to_path r1 = data_to_path r2 \<longrightarrow> r1 = r2"
    using Cons.prems(3) by simp
  note H = Cons.IH [OF run pl un]
  from H have i: "\<And>row. row \<in> set rows \<Longrightarrow> \<not> is_info row \<Longrightarrow>
            \<exists>p dv v. data_to_path row = Inr p \<and> field row ''value'' = Some dv \<and>
               parse_value L dv (PDict row) = Inr v \<and> (\<forall>dflt. deep_get new p dflt = v)"
    by blast
  from H have ii: "\<And>ks dflt. length ks = 3 \<Longrightarrow>
       (\<forall>row \<in> set rows. \<not> is_info row \<longrightarrow> data_to_path row \<noteq> Inr (join_dot ks)) \<Longrightarrow>
       deep_get_keys new ks dflt = deep_get_keys new1 ks dflt"
    by (simp del: deep_get_keys.simps)
  have i': "\<exists>p dv v. data_to_path row = Inr p \<and> field row ''value'' = Some dv \<and>
               parse_value L dv (PDict row) = Inr v \<and> (\<forall>dflt. deep_get new p dflt = v)"
    if "row \<in> set (r0 # rows)" "\<not> is_info row" for row
  proof (cases "row \<in> set rows")
    case True
    then show ?thesis using that(2) by (rule i)
  next
    case False
    with that(1) have r0: "row = r0" by simp
    from that(2) r0 step obtain p dv v where p: "data_to_path r0 = Inr p"
      and dv: "field r0 ''value'' = Some dv" and v: "parse_value L dv (PDict r0) = Inr v"
      and new1: "new1 = deep_set new0 p v"
      by (auto elim: project_row_argument)
    have plr: "plain_row r0" using Cons.prems(2) that(2) r0 by simp
    from plain_row_path [OF plr] p obtain f g a where pf: "p = f @ ''.'' @ g @ ''.'' @ a"
      and sp: "split_dot p = [f, g, a]"
      by auto
    have jd: "join_dot [f, g, a] = p" by (simp add: pf)
    have "\<forall>r \<in> set rows. \<not> is_info r \<longrightarrow> data_to_path r \<noteq> Inr (join_dot [f, g, a])"
    proof (intro ballI impI)
      fix r assume r: "r \<in> set rows" "\<not> is_info r"
      show "data_to_path r \<noteq> Inr (join_dot [f, g, a])"
      proof
        assume "data_to_path r = Inr (join_dot [f, g, a])"
        then have "data_to_path r = data_to_path r0" by (simp only: jd p)
        with Cons.prems(3) r that(2) r0 have "r = r0" by auto
        with r(1) False r0 show False by simp
      qed
    qed
    then have "deep_get_keys new [f, g, a] dflt = deep_get_keys new1 [f, g, a] dflt" for dflt
      by (intro ii) simp
    then have "deep_get new p dflt = v" for dflt
      by (simp add: deep_get_def sp new1 deep_set_def del: deep_get_keys.simps deep_set_keys.simps)
    with p dv v show ?thesis by (auto simp: r0)
  qed
  have ii': "deep_get_keys new ks dflt = deep_get_keys new0 ks dflt"
    if len: "length ks = 3"
      and none: "\<forall>row \<in> set (r0 # rows). \<not> is_info row \<longrightarrow> data_to_path row \<noteq> Inr (join_dot ks)"
    for ks dflt
  proof -
    have 1: "deep_get_keys new ks dflt = deep_get_keys new1 ks dflt"
      using none by (intro ii [OF len]) simp
    have 2: "deep_get_keys new1 ks dflt = deep_get_keys new0 ks dflt"
    proof (cases "is_info r0")
      case True
      then show ?thesis using project_row_info [OF True step] by simp
    next
      case False
      with step obtain p v where p: "data_to_path r0 = Inr p" and new1: "new1 = deep_set new0 p v"
        by (auto elim: project_row_argument)
      have plr: "plain_row r0" using Cons.prems(2) False by simp
      from plain_row_path [OF plr] p obtain f g a where pf: "p = f @ ''.'' @ g @ ''.'' @ a"
        and sp: "split_dot p = [f, g, a]"
        by auto
      have "ks \<noteq> [f, g, a]"
      proof
        assume "ks = [f, g, a]"
        then have "join_dot ks = p" by (simp add: pf)
        with none False p show False by simp
      qed
      then show ?thesis
        using len by (simp add: new1 deep_set_def sp deep_get_set_other
            del: deep_get_keys.simps deep_set_keys.simps)
    qed
    show ?thesis by (simp only: 1 2)
  qed
  show ?case
  proof (intro conjI ballI allI impI)
    fix row assume "row \<in> set (r0 # rows)" "\<not> is_info row"
    then show "\<exists>p dv v. data_to_path row = Inr p \<and> field row ''value'' = Some dv \<and>
               parse_value L dv (PDict row) = Inr v \<and> (\<forall>dflt. deep_get new p dflt = v)"
      by (rule i')
  next
    fix ks dflt
    assume "length ks = 3 \<and>
       (\<forall>row \<in> set (r0 # rows). \<not> is_info row \<longrightarrow> data_to_path row \<noteq> Inr (join_dot ks))"
    then show "deep_get_keys new ks dflt = deep_get_keys new0 ks dflt"
      using ii' by blast
  qed
qed

lemma split_dot_stats:
  "split_dot ''Alas.DropRecord.AzurStatsID'' = [''Alas'', ''DropRecord'', ''AzurStatsID'']"
  by simp

lemma check_config_frame:
  assumes "length ks = 3" and "ks \<noteq> [''Alas'', ''DropRecord'', ''AzurStatsID'']"
  shows "deep_get_keys (check_config L d t) ks dflt = deep_get_keys d ks dflt"
  using assms
  by (simp add: check_config_def deep_default_def deep_set_def split_dot_stats deep_get_set_other
      del: deep_get_keys.simps deep_set_keys.simps split_dot.simps)

text \<open>
  C5, as amended. In a store whose argument rows have dot-free names and pairwise
  different paths, projecting a configuration whose prior instance file is empty yields,
  at the path of every argument row of the canonical language other than
  \<^verbatim>\<open>Alas.DropRecord.AzurStatsID\<close>, the row's default value after value typing with the row's
  own option set.
\<close>

theorem update_config_fills_typed_defaults:
  assumes run: "fst (update_config L name s) = Inr new"
    and empty: "read_config L name s = PDict []"
    and pl: "\<forall>r \<in> set (argument_rows s). plain_row r"
    and un: "\<forall>r1 \<in> set (argument_rows s). \<forall>r2 \<in> set (argument_rows s).
               data_to_path r1 = data_to_path r2 \<longrightarrow> r1 = r2"
  shows "\<forall>row \<in> set (argument_rows s).
           data_to_path row \<noteq> Inr ''Alas.DropRecord.AzurStatsID'' \<longrightarrow>
           (\<exists>p dv v. data_to_path row = Inr p \<and> field row ''value'' = Some dv \<and>
              parse_value L dv (PDict row) = Inr v \<and> (\<forall>dflt. deep_get new p dflt = v))"
proof (intro ballI impI)
  fix row
  assume row: "row \<in> set (argument_rows s)"
    and ns: "data_to_path row \<noteq> Inr ''Alas.DropRecord.AzurStatsID''"
  from run obtain new0 where e: "efold (project_row L (PDict [])) (canonical_rows s) (PDict []) = Inr new0"
    and new: "new = check_config L new0 (name = PStr ''template'')"
    by (auto simp: update_config_unfold empty split: sum.splits)
  have pl': "\<forall>r \<in> set (canonical_rows s). \<not> is_info r \<longrightarrow> plain_row r"
    using pl by (simp add: argument_rows_def)
  have un': "\<forall>r1 \<in> set (canonical_rows s). \<forall>r2 \<in> set (canonical_rows s). \<not> is_info r1 \<and> \<not> is_info r2 \<and>
           data_to_path r1 = data_to_path r2 \<longrightarrow> r1 = r2"
    using un by (simp add: argument_rows_def)
  from row have row': "row \<in> set (canonical_rows s)" "\<not> is_info row"
    by (simp_all add: argument_rows_def)
  from project_rows [OF e pl' un'] row' obtain p dv v where p: "data_to_path row = Inr p"
    and dv: "field row ''value'' = Some dv" and v: "parse_value L dv (PDict row) = Inr v"
    and get: "\<And>dflt. deep_get new0 p dflt = v"
    by blast
  have plr: "plain_row row" using pl row by simp
  from plain_row_path [OF plr] p obtain f g a where pf: "p = f @ ''.'' @ g @ ''.'' @ a"
    and sp: "split_dot p = [f, g, a]"
    by auto
  have "[f, g, a] \<noteq> [''Alas'', ''DropRecord'', ''AzurStatsID'']"
    using ns p pf by auto
  then have "deep_get_keys new [f, g, a] dflt = deep_get_keys new0 [f, g, a] dflt" for dflt
    unfolding new by (intro check_config_frame) simp_all
  then have "deep_get new p dflt = v" for dflt
    using get [of dflt] by (simp only: deep_get_def sp)
  with p dv v show "\<exists>p dv v. data_to_path row = Inr p \<and> field row ''value'' = Some dv \<and>
              parse_value L dv (PDict row) = Inr v \<and> (\<forall>dflt. deep_get new p dflt = v)"
    by blast
qed

lemma argument_rows_demo:
  "argument_rows demo_db = [demo_row ''Scheduler'' ''Interval'' ''input'' (PInt 10)]"
  by code_simp

theorem update_config_fills_typed_defaults_witness:
  "\<exists>new. fst (update_config sample_lib (PStr ''demo'') demo_db) = Inr new \<and>
     (\<forall>dflt. deep_get new ''Main.Scheduler.Interval'' dflt = PInt 10)"
proof -
  let ?row = "demo_row ''Scheduler'' ''Interval'' ''input'' (PInt 10)"
  have "\<not> isl (fst (update_config sample_lib (PStr ''demo'') demo_db))"
    by code_simp
  then obtain new where run: "fst (update_config sample_lib (PStr ''demo'') demo_db) = Inr new"
    by (cases "fst (update_config sample_lib (PStr ''demo'') demo_db)") simp_all
  have empty: "read_config sample_lib (PStr ''demo'') demo_db = PDict []"
    by (simp add: read_config_def demo_db_def empty_db_def)
  have "plain_row ?row"
    by (simp add: plain_row_def demo_row_def field_def plain_def)
  then have pl: "\<forall>r \<in> set (argument_rows demo_db). plain_row r"
    by (simp add: argument_rows_demo)
  have un: "\<forall>r1 \<in> set (argument_rows demo_db). \<forall>r2 \<in> set (argument_rows demo_db).
               data_to_path r1 = data_to_path r2 \<longrightarrow> r1 = r2"
    by (simp add: argument_rows_demo)
  have p: "data_to_path ?row = Inr ''Main.Scheduler.Interval''"
    by (simp add: data_to_path_def demo_row_def get_or_def field_def)
  have pv: "parse_value sample_lib (PInt 10) (PDict ?row) = Inr (PInt 10)"
    by (simp add: parse_value_def demo_row_def field_def)
  have dv: "field ?row ''value'' = Some (PInt 10)"
    by (simp add: demo_row_def field_def)
  from update_config_fills_typed_defaults [OF run empty pl un]
  have "\<exists>p dv v. data_to_path ?row = Inr p \<and> field ?row ''value'' = Some dv \<and>
              parse_value sample_lib dv (PDict ?row) = Inr v \<and> (\<forall>dflt. deep_get new p dflt = v)"
    by (simp add: argument_rows_demo p)
  then have "\<forall>dflt. deep_get new ''Main.Scheduler.Interval'' dflt = PInt 10"
    using p dv pv by auto
  with run show ?thesis by blast
qed

text \<open>
  The claim as stated fails for a default that value typing changes: the row
  \<^verbatim>\<open>Main.Scheduler.Note\<close> has the default \<^verbatim>\<open>""\<close>, and the projection from an empty instance
  file holds \<^verbatim>\<open>None\<close> at its path.
\<close>

theorem update_config_typed_default_counterexample:
  "read_config sample_lib (PStr ''demo'') blank_db = PDict [] \<and>
   argument_rows blank_db = [demo_row ''Scheduler'' ''Note'' ''input'' (PStr '''')] \<and>
   field (demo_row ''Scheduler'' ''Note'' ''input'' (PStr '''')) ''value'' = Some (PStr '''') \<and>
   fst (update_config sample_lib (PStr ''demo'') blank_db) =
     Inr (PDict
       [(PStr ''Main'', PDict [(PStr ''Scheduler'', PDict [(PStr ''Note'', PNone)])]),
        (PStr ''Alas'',
         PDict [(PStr ''DropRecord'', PDict [(PStr ''AzurStatsID'', PStr ''id0'')])])])"
  by code_simp

end
